theory Spec2Isabelle
  imports Complex_Main
begin

section \<open>Strings as the program uses them\<close>

text \<open>
  Strings are lists of 8-bit characters; the model covers ASCII text. The helpers below are
  the few methods of the JavaScript string and array library that the program calls, each
  restricted to ASCII: \<open>toLowerCase\<close>, \<open>trim\<close>, \<open>includes\<close>, \<open>split(",")\<close>,
  \<open>split(/\s+/)\<close>, \<open>join(" ")\<close> and \<open>pop\<close>.
\<close>

definition isSpace :: "char \<Rightarrow> bool" where
  "isSpace c = (c \<in> set [CHR '' '', CHR 0x09, CHR 0x0A, CHR 0x0B, CHR 0x0C, CHR 0x0D])"

definition isDigit :: "char \<Rightarrow> bool" where
  "isDigit c = (c \<in> set ''0123456789'')"

definition isLower :: "char \<Rightarrow> bool" where
  "isLower c = (c \<in> set ''abcdefghijklmnopqrstuvwxyz'')"

definition isUpper :: "char \<Rightarrow> bool" where
  "isUpper c = (c \<in> set ''ABCDEFGHIJKLMNOPQRSTUVWXYZ'')"

definition isWord :: "char \<Rightarrow> bool" where
  "isWord c = (isLower c \<or> isUpper c \<or> isDigit c \<or> c = CHR ''_'')"

definition toLowerChar :: "char \<Rightarrow> char" where
  "toLowerChar c =
     (case map_of (zip ''ABCDEFGHIJKLMNOPQRSTUVWXYZ'' ''abcdefghijklmnopqrstuvwxyz'') c of
        None \<Rightarrow> c
      | Some l \<Rightarrow> l)"

definition toLowerCase :: "string \<Rightarrow> string" where
  "toLowerCase s = map toLowerChar s"

definition trim :: "string \<Rightarrow> string" where
  "trim s = rev (dropWhile isSpace (rev (dropWhile isSpace s)))"

fun startsWith :: "string \<Rightarrow> string \<Rightarrow> bool" where
  "startsWith s [] = True"
| "startsWith [] (p # ps) = False"
| "startsWith (c # cs) (p # ps) = (c = p \<and> startsWith cs ps)"

fun str_includes :: "string \<Rightarrow> string \<Rightarrow> bool" where
  "str_includes [] sub = (sub = [])"
| "str_includes (c # cs) sub = (startsWith (c # cs) sub \<or> str_includes cs sub)"

text \<open>\<open>s.split(",")\<close>: the pieces between the commas, empty pieces kept.\<close>

fun split_comma :: "string \<Rightarrow> string list" where
  "split_comma [] = [[]]"
| "split_comma (c # cs) =
     (if c = CHR '','' then [] # split_comma cs
      else (case split_comma cs of
              [] \<Rightarrow> [[c]]
            | p # ps \<Rightarrow> (c # p) # ps))"

text \<open>
  \<open>s.split(/\s+/)\<close>: the pieces between the maximal runs of whitespace; a run at either end
  leaves an empty piece there, and the empty string gives one empty piece.
\<close>

function split_ws :: "string \<Rightarrow> string list" where
  "split_ws s =
     (let tok = takeWhile (\<lambda>c. \<not> isSpace c) s;
          rest = dropWhile (\<lambda>c. \<not> isSpace c) s
      in if rest = [] then [tok] else tok # split_ws (dropWhile isSpace rest))"
  by pat_completeness auto
termination
proof (relation "measure length")
  show "wf (measure length)" by simp
next
  fix s :: string and tok rest
  assume r: "rest = dropWhile (\<lambda>c. \<not> isSpace c) s" and ne: "rest \<noteq> []"
  from ne obtain c cs where rc: "rest = c # cs" by (cases rest) auto
  from r rc have "dropWhile (\<lambda>c. \<not> isSpace c) s = c # cs" by simp
  then have "isSpace c" by (simp only: dropWhile_eq_Cons_conv not_not)
  then have "dropWhile isSpace rest = dropWhile isSpace cs" using rc by simp
  then have "length (dropWhile isSpace rest) \<le> length cs"
    by (simp add: length_dropWhile_le)
  also have "length cs < length rest" using rc by simp
  also have "length rest \<le> length s" using r by (simp add: length_dropWhile_le)
  finally show "(dropWhile isSpace rest, s) \<in> measure length" by simp
qed

declare split_ws.simps [simp del]

fun join_sp :: "string list \<Rightarrow> string" where
  "join_sp [] = []"
| "join_sp [x] = x"
| "join_sp (x # y # ys) = x @ CHR '' '' # join_sp (y # ys)"

text \<open>\<open>xs.pop()\<close>: the last element (\<open>undefined\<close> on the empty array) and the shortened array.\<close>

definition pop :: "'a list \<Rightarrow> 'a option \<times> 'a list" where
  "pop xs = (if xs = [] then (None, []) else (Some (last xs), butlast xs))"

text \<open>\<open>x || ""\<close> on an optional string.\<close>

definition orEmpty :: "string option \<Rightarrow> string" where
  "orEmpty x = (case x of None \<Rightarrow> [] | Some s \<Rightarrow> s)"

text \<open>Array indexing \<open>xs[i]\<close>: \<open>undefined\<close> out of range.\<close>

definition nth_opt :: "'a list \<Rightarrow> nat \<Rightarrow> 'a option" where
  "nth_opt xs i = (if i < length xs then Some (xs ! i) else None)"

section \<open>Address parsing (utils.ts, parseAddress)\<close>

text \<open>
  Values the program throws: a JavaScript \<open>Error\<close> with its message, and the store
  client's request error with its code (\<open>P2002\<close>: unique constraint, \<open>P2025\<close>: row not found).
\<close>

datatype error = Error string | PrismaClientKnownRequestError string

record Address =
  street :: string
  city :: string
  state :: string
  zip_code :: "string option"

text \<open>The test \<open>/^\d{5}$/\<close>: the whole token is exactly five digits.\<close>

definition zipMatch :: "string \<Rightarrow> bool" where
  "zipMatch s = (length s = 5 \<and> list_all isDigit s)"

definition parts_of :: "string \<Rightarrow> string list" where
  "parts_of address = map trim (split_comma (trim address))"

definition parseAddress :: "string \<Rightarrow> error + Address" where
  "parseAddress address =
     (let parts = parts_of address in
      if length parts < 2 then Inl (Error (''Invalid address format: '' @ address))
      else if length parts = 2 then
        (let street = parts ! 0;
             cityStateZip = parts ! 1;
             cityStateZipParts = split_ws (trim cityStateZip);
             lastPart = orEmpty (nth_opt cityStateZipParts (length cityStateZipParts - 1))
         in if zipMatch lastPart then
              (let (zip, ps1) = pop cityStateZipParts;
                   (st, ps2) = pop ps1
               in Inr \<lparr>street = street, city = join_sp ps2, state = orEmpty st, zip_code = zip\<rparr>)
            else
              (let (st, ps1) = pop cityStateZipParts
               in Inr \<lparr>street = street, city = join_sp ps1, state = orEmpty st, zip_code = None\<rparr>))
      else
        (let street = parts ! 0;
             city = parts ! 1;
             stateZip = parts ! 2;
             stateZipParts = split_ws (trim stateZip)
         in if length stateZipParts > 1
               \<and> zipMatch (orEmpty (nth_opt stateZipParts (length stateZipParts - 1))) then
              (let (zip, ps1) = pop stateZipParts
               in Inr \<lparr>street = street, city = city, state = join_sp ps1, zip_code = zip\<rparr>)
            else Inr \<lparr>street = street, city = city, state = join_sp stateZipParts, zip_code = None\<rparr>))"


section \<open>Regular expressions\<close>

text \<open>
  The program finds and rewrites text with JavaScript regular expressions. They are modelled
  by a backtracking matcher over the constructs the program's patterns use. A matcher state
  is the character before the current position (\<open>None\<close> at the start of the input), the
  input still unread, and the capture groups bound so far. \<open>ms r s\<close> lists every state in
  which \<open>r\<close> can stop when started in \<open>s\<close>, in the order in which a backtracking matcher
  tries them, so the head of the list is the match that JavaScript reports.
\<close>

datatype rx =
    Cls "char \<Rightarrow> bool"
  | Eps
  | Seq rx rx
  | Alt rx rx
  | Star rx
  | StarLazy rx
  | WordB
  | Bol
  | Eol
  | Grp nat rx

type_synonym caps = "(nat \<times> string) list"
type_synonym mstate = "char option \<times> string \<times> caps"

definition unread :: "mstate \<Rightarrow> string" where
  "unread t = fst (snd t)"

definition wordBefore :: "char option \<Rightarrow> bool" where
  "wordBefore pv = (case pv of None \<Rightarrow> False | Some c \<Rightarrow> isWord c)"

definition wordAfter :: "string \<Rightarrow> bool" where
  "wordAfter cs = (case cs of [] \<Rightarrow> False | c # _ \<Rightarrow> isWord c)"

function (sequential) ms :: "rx \<Rightarrow> mstate \<Rightarrow> mstate list" where
  "ms (Cls p) (pv, [], g) = []"
| "ms (Cls p) (pv, c # cs, g) = (if p c then [(Some c, cs, g)] else [])"
| "ms Eps s = [s]"
| "ms (Seq a b) s = concat (map (ms b) (ms a s))"
| "ms (Alt a b) s = ms a s @ ms b s"
| "ms (Star a) s =
     concat (map (\<lambda>t. if length (unread t) < length (unread s) then ms (Star a) t else [])
                 (ms a s)) @ [s]"
| "ms (StarLazy a) s =
     s # concat (map (\<lambda>t. if length (unread t) < length (unread s) then ms (StarLazy a) t
                          else [])
                     (ms a s))"
| "ms WordB (pv, cs, g) = (if wordBefore pv \<noteq> wordAfter cs then [(pv, cs, g)] else [])"
| "ms Bol (pv, cs, g) = (if pv = None then [(pv, cs, g)] else [])"
| "ms Eol (pv, cs, g) = (if cs = [] then [(pv, cs, g)] else [])"
| "ms (Grp n a) (pv, cs, g) =
     map (\<lambda>(pv', cs', g'). (pv', cs', (n, take (length cs - length cs') cs) # g'))
         (ms a (pv, cs, g))"
  by pat_completeness auto
termination
  by (relation "measures [\<lambda>(r, s). size r, \<lambda>(r, s). length (unread s)]") auto

text \<open>Pattern syntax: a character, a literal, \<open>r?\<close>, \<open>r+\<close>, alternatives, a sequence.\<close>

definition chr :: "char \<Rightarrow> rx" where
  "chr c = Cls (\<lambda>x. x = c)"

definition chr_i :: "char \<Rightarrow> rx" where
  "chr_i c = Cls (\<lambda>x. toLowerChar x = toLowerChar c)"

definition seqs :: "rx list \<Rightarrow> rx" where
  "seqs rs = foldr Seq rs Eps"

definition lit :: "string \<Rightarrow> rx" where
  "lit s = seqs (map chr s)"

definition lit_i :: "string \<Rightarrow> rx" where
  "lit_i s = seqs (map chr_i s)"

fun alts :: "rx list \<Rightarrow> rx" where
  "alts [] = Cls (\<lambda>x. False)"
| "alts [r] = r"
| "alts (r # rs) = Alt r (alts rs)"

definition opt :: "rx \<Rightarrow> rx" where
  "opt r = Alt r Eps"

definition plus :: "rx \<Rightarrow> rx" where
  "plus r = Seq r (Star r)"

definition rx_digit :: rx where "rx_digit = Cls isDigit"
definition rx_space :: rx where "rx_space = Cls isSpace"
definition rx_any :: rx where "rx_any = Cls (\<lambda>x. True)"

text \<open>\<open>.\<close> without the \<open>s\<close> flag: any character but a line terminator.\<close>

definition rx_dot :: rx where
  "rx_dot = Cls (\<lambda>x. x \<noteq> CHR 0x0A \<and> x \<noteq> CHR 0x0D)"

text \<open>
  The leftmost match: \<open>rx_search r pv s\<close> tries each start position of \<open>s\<close> in turn and
  returns the text before the match together with the matcher's final state.
\<close>

fun rx_search :: "rx \<Rightarrow> char option \<Rightarrow> string \<Rightarrow> (string \<times> mstate) option" where
  "rx_search r pv [] = (case ms r (pv, [], []) of [] \<Rightarrow> None | t # _ \<Rightarrow> Some ([], t))"
| "rx_search r pv (c # cs) =
     (case ms r (pv, c # cs, []) of
        t # _ \<Rightarrow> Some ([], t)
      | [] \<Rightarrow> (case rx_search r (Some c) cs of
                 None \<Rightarrow> None
               | Some (pre, t) \<Rightarrow> Some (c # pre, t)))"

text \<open>\<open>s.match(r)\<close> for a pattern without the \<open>g\<close> flag: the matched text and the groups.\<close>

definition str_match :: "rx \<Rightarrow> string \<Rightarrow> (string \<times> caps) option" where
  "str_match r s =
     (case rx_search r None s of
        None \<Rightarrow> None
      | Some (pre, (pv, rest, g)) \<Rightarrow>
          Some (take (length s - length pre - length rest) (drop (length pre) s), g))"

definition grp :: "caps \<Rightarrow> nat \<Rightarrow> string option" where
  "grp g n = map_of g n"

text \<open>
  \<open>s.replace(r, f)\<close> for a pattern with the \<open>g\<close> flag: every match, left to right, each
  search resuming where the previous match ended; after an empty match one character is
  copied.
\<close>

function replace_all :: "rx \<Rightarrow> (caps \<Rightarrow> string) \<Rightarrow> char option \<Rightarrow> string \<Rightarrow> string" where
  "replace_all r f pv s =
     (case ms r (pv, s, []) of
        [] \<Rightarrow> (case s of [] \<Rightarrow> [] | c # cs \<Rightarrow> c # replace_all r f (Some c) cs)
      | (pv', rest, g) # _ \<Rightarrow>
          if length rest < length s then f g @ replace_all r f pv' rest
          else (case s of [] \<Rightarrow> f g | c # cs \<Rightarrow> f g @ c # replace_all r f (Some c) cs))"
  by pat_completeness auto
termination
  by (relation "measure (\<lambda>(r, f, pv, s). length s)") auto

declare replace_all.simps [simp del]

text \<open>\<open>s.replace(r, f)\<close> for a pattern without the \<open>g\<close> flag: the leftmost match only.\<close>

definition replace_first :: "rx \<Rightarrow> (caps \<Rightarrow> string) \<Rightarrow> string \<Rightarrow> string" where
  "replace_first r f s =
     (case rx_search r None s of
        None \<Rightarrow> s
      | Some (pre, (pv, rest, g)) \<Rightarrow> pre @ f g @ rest)"

section \<open>Address normalization (utils.ts, normalizeAddress)\<close>

definition abbreviations :: "(string \<times> string) list" where
  "abbreviations =
     [(''street'', ''st''), (''avenue'', ''ave''), (''road'', ''rd''), (''drive'', ''dr''),
      (''court'', ''ct''), (''circle'', ''cir''), (''boulevard'', ''blvd''), (''lane'', ''ln''),
      (''way'', ''way''), (''place'', ''pl''), (''terrace'', ''ter''), (''parkway'', ''pkwy''),
      (''highway'', ''hwy''), (''trail'', ''trl''), (''square'', ''sq'')]"

text \<open>\<open>new RegExp(`\\b${full}\\b`, "g")\<close>\<close>

definition rx_whole_word :: "string \<Rightarrow> rx" where
  "rx_whole_word full = seqs [WordB, lit full, WordB]"

text \<open>\<open>/\b(north|south|east|west|n|s|e|w)\b\.?/g\<close>\<close>

definition rx_direction :: rx where
  "rx_direction =
     seqs [WordB,
           Grp 1 (alts [lit ''north'', lit ''south'', lit ''east'', lit ''west'',
                        lit ''n'', lit ''s'', lit ''e'', lit ''w'']),
           WordB, opt (chr (CHR ''.''))]"

text \<open>\<open>/\b(unit|apt|#)\b\.?\s*[\w\d-]*/gi\<close>\<close>

definition rx_unit :: rx where
  "rx_unit =
     seqs [WordB,
           Grp 1 (alts [lit_i ''unit'', lit_i ''apt'', chr (CHR ''#'')]),
           WordB, opt (chr (CHR ''.'')), Star rx_space,
           Star (Cls (\<lambda>x. isWord x \<or> isDigit x \<or> x = CHR ''-''))]"

text \<open>\<open>/[.,]/g\<close> and \<open>/\s+/g\<close>\<close>

definition rx_period_comma :: rx where
  "rx_period_comma = Cls (\<lambda>x. x = CHR ''.'' \<or> x = CHR '','')"

definition rx_spaces :: rx where
  "rx_spaces = plus rx_space"

definition normalizeStreet :: "string \<Rightarrow> string" where
  "normalizeStreet astreet =
     (let normalized = trim (toLowerCase astreet);
          normalized = foldl (\<lambda>n (full, abbr). replace_all (rx_whole_word full) (\<lambda>g. abbr) None n)
                             normalized abbreviations;
          normalized = replace_all rx_direction (\<lambda>g. []) None normalized;
          normalized = replace_all rx_unit (\<lambda>g. []) None normalized;
          normalized = replace_all rx_period_comma (\<lambda>g. []) None normalized;
          normalized = replace_all rx_spaces (\<lambda>g. '' '') None normalized
      in trim normalized)"

definition normalizeAddress :: "string \<Rightarrow> string \<Rightarrow> string \<Rightarrow> string" where
  "normalizeAddress astreet acity astate =
     normalizeStreet astreet @ ''|'' @ trim (toLowerCase acity) @ ''|''
       @ trim (toLowerCase astate)"

section \<open>Candidate listings and the property store\<close>

text \<open>
  A JavaScript \<open>number\<close> is modelled as an exact rational or \<open>NaN\<close>; the rounding of
  doubles is outside the model. \<open>truthy_number\<close> is the test \<open>x ? .. : ..\<close> on a number,
  \<open>decimal_equals\<close> is \<open>Decimal.equals\<close>, which holds for no \<open>NaN\<close> operand.
\<close>

datatype number = NaN | Num rat

fun number_add :: "number \<Rightarrow> number \<Rightarrow> number" where
  "number_add (Num a) (Num b) = Num (a + b)"
| "number_add _ _ = NaN"

fun truthy_number :: "number \<Rightarrow> bool" where
  "truthy_number NaN = False"
| "truthy_number (Num a) = (a \<noteq> 0)"

fun decimal_equals :: "number \<Rightarrow> number \<Rightarrow> bool" where
  "decimal_equals (Num a) (Num b) = (a = b)"
| "decimal_equals _ _ = False"

fun number_mul :: "number \<Rightarrow> number \<Rightarrow> number" where
  "number_mul (Num a) (Num b) = Num (a * b)"
| "number_mul _ _ = NaN"

text \<open>
  A \<open>Date\<close> is either built from a year, a month index and a day (\<open>new Date(y, m, d)\<close>,
  kept as given) or read from the clock (\<open>new Date()\<close>).
\<close>

datatype jsdate = DateYMD number number number | DateAt nat

datatype PropertyType = HOME | LAND | CONDO | TOWNHOUSE | MULTI_FAMILY

datatype PropertyStatus = ACTIVE | PENDING | SOLD | OFF_MARKET

record PriceChange =
  amount :: number
  date :: jsdate

text \<open>
  \<open>ParsedProperty\<close> (types.ts). A parser builds it by spreading a parsed address, so it
  extends the address record. Optional members are \<open>None\<close> when \<open>undefined\<close>.
\<close>

record ParsedProperty = Address +
  county :: "string option"
  source :: string
  sourceId :: string
  url :: string
  status :: "string option"
  price :: number
  priceChange :: "PriceChange option"
  propertyType :: "PropertyType option"
  beds :: "number option"
  baths :: "number option"
  sqft :: "number option"
  lotSize :: "number option"
  yearBuilt :: "number option"
  builder :: "string option"
  agent :: "string option"
  images :: "string list"
  description :: "string option"

text \<open>
  The rows of the tables \<open>Property\<close> and \<open>PriceHistory\<close> (migration.sql). The time stamps
  that the database fills in by itself (\<open>firstSeenAt\<close>, \<open>createdAt\<close>, \<open>updatedAt\<close>) are
  left out: the program never reads or writes them. Row identifiers are drawn from a
  counter. Numbers are stored as they are written; the scale of the decimal columns is
  not modelled.
\<close>

record Property =
  p_id :: nat
  p_street :: string
  p_city :: string
  p_state :: string
  p_zip :: "string option"
  p_county :: "string option"
  p_source :: string
  p_sourceId :: string
  p_url :: string
  p_status :: PropertyStatus
  p_price :: number
  p_propertyType :: PropertyType
  p_beds :: "number option"
  p_baths :: "number option"
  p_sqft :: "number option"
  p_lotSize :: "number option"
  p_yearBuilt :: "number option"
  p_builder :: "string option"
  p_agent :: "string option"
  p_images :: "string list"
  p_description :: "string option"

record PriceHistory =
  h_id :: nat
  propertyId :: nat
  oldPrice :: number
  newPrice :: number
  changeDate :: jsdate

record store =
  properties :: "Property list"
  priceHistory :: "PriceHistory list"
  nextId :: nat

definition empty_store :: store where
  "empty_store = \<lparr>properties = [], priceHistory = [], nextId = 0\<rparr>"

subsection \<open>The store client\<close>

text \<open>
  \<open>findUnique\<close> on the unique index \<open>(source, sourceId)\<close>; \<open>findMany\<close> with the city and
  state compared in mode \<open>insensitive\<close>; \<open>create\<close> and \<open>update\<close>, which reject a row that
  would break the unique index; \<open>priceHistory.create\<close>. The list order of \<open>properties\<close> is
  the order in which \<open>findMany\<close> returns rows.
\<close>

definition findUnique :: "store \<Rightarrow> string \<Rightarrow> string \<Rightarrow> Property option" where
  "findUnique db src sid =
     find (\<lambda>p. p_source p = src \<and> p_sourceId p = sid) (properties db)"

definition findMany :: "store \<Rightarrow> string \<Rightarrow> string \<Rightarrow> Property list" where
  "findMany db acity astate =
     filter (\<lambda>p. toLowerCase (p_city p) = toLowerCase acity
                \<and> toLowerCase (p_state p) = toLowerCase astate)
            (properties db)"

definition property_create :: "store \<Rightarrow> (nat \<Rightarrow> Property) \<Rightarrow> error + Property \<times> store" where
  "property_create db mk =
     (let row = mk (nextId db) in
      if list_ex (\<lambda>p. p_source p = p_source row \<and> p_sourceId p = p_sourceId row) (properties db)
      then Inl (PrismaClientKnownRequestError ''P2002'')
      else Inr (row, db\<lparr>properties := properties db @ [row], nextId := Suc (nextId db)\<rparr>))"

definition property_update :: "store \<Rightarrow> nat \<Rightarrow> (Property \<Rightarrow> Property) \<Rightarrow> error + store" where
  "property_update db i f =
     (case find (\<lambda>p. p_id p = i) (properties db) of
        None \<Rightarrow> Inl (PrismaClientKnownRequestError ''P2025'')
      | Some old \<Rightarrow>
          if list_ex (\<lambda>p. p_id p \<noteq> i \<and> p_source p = p_source (f old)
                           \<and> p_sourceId p = p_sourceId (f old)) (properties db)
          then Inl (PrismaClientKnownRequestError ''P2002'')
          else Inr (db\<lparr>properties := map (\<lambda>p. if p_id p = i then f p else p) (properties db)\<rparr>))"

definition priceHistory_create :: "store \<Rightarrow> nat \<Rightarrow> number \<Rightarrow> number \<Rightarrow> jsdate \<Rightarrow> store" where
  "priceHistory_create db pid old new d =
     db\<lparr>priceHistory := priceHistory db @
            [\<lparr>h_id = nextId db, propertyId = pid, oldPrice = old, newPrice = new,
              changeDate = d\<rparr>],
        nextId := Suc (nextId db)\<rparr>"

text \<open>
  A field that is \<open>undefined\<close> in the data of an update leaves the column as it is.
\<close>

definition unless_undefined :: "'a option \<Rightarrow> 'a option \<Rightarrow> 'a option" where
  "unless_undefined new old = (case new of None \<Rightarrow> old | Some v \<Rightarrow> Some v)"

text \<open>\<open>a ?? b\<close> on optional values.\<close>

definition nullish_or :: "'a option \<Rightarrow> 'a option \<Rightarrow> 'a option" where
  "nullish_or a b = (case a of None \<Rightarrow> b | Some v \<Rightarrow> Some v)"

text \<open>
  What the database guarantees of the table \<open>Property\<close>: the primary key and the unique
  index hold, and the identifier counter is ahead of every row.
\<close>

definition row_key :: "Property \<Rightarrow> string \<times> string" where
  "row_key p = (p_source p, p_sourceId p)"

definition wf_store :: "store \<Rightarrow> bool" where
  "wf_store db =
     (distinct (map p_id (properties db)) \<and> distinct (map row_key (properties db))
      \<and> list_all (\<lambda>p. p_id p < nextId db) (properties db))"

subsection \<open>The processor (processor.ts)\<close>

definition mapStatus :: "string \<Rightarrow> PropertyStatus" where
  "mapStatus s =
     (let lower = toLowerCase s in
      if str_includes lower ''pending'' then PENDING
      else if str_includes lower ''sold'' then SOLD
      else if str_includes lower ''off'' then OFF_MARKET
      else ACTIVE)"

text \<open>
  \<open>x ? x : undefined\<close> on an optional number; \<open>x ? x : y\<close> is then
  \<open>nullish_or (truthy_opt x) y\<close>.
\<close>

definition truthy_opt :: "number option \<Rightarrow> number option" where
  "truthy_opt x = (case x of None \<Rightarrow> None | Some n \<Rightarrow> if truthy_number n then Some n else None)"

text \<open>\<open>property.status ? mapStatus(property.status) : d\<close>\<close>

definition status_or :: "string option \<Rightarrow> PropertyStatus \<Rightarrow> PropertyStatus" where
  "status_or x d = (case x of None \<Rightarrow> d | Some s \<Rightarrow> if s = [] then d else mapStatus s)"

text \<open>
  The lookup at the head of \<open>upsertProperty\<close>: the unique index first, then the rows of the
  same city and state whose normalized address equals the candidate's.
\<close>

definition resolveExisting :: "store \<Rightarrow> ParsedProperty \<Rightarrow> Property option" where
  "resolveExisting db property =
     (case findUnique db (source property) (sourceId property) of
        Some existing \<Rightarrow> Some existing
      | None \<Rightarrow>
          (let normalized = normalizeAddress (street property) (city property) (state property);
               allProperties = findMany db (city property) (state property)
           in find (\<lambda>p. normalizeAddress (p_street p) (p_city p) (p_state p) = normalized)
                   allProperties))"

text \<open>The object \<open>data\<close> of \<open>upsertProperty\<close>, as the row that \<open>create\<close> stores.\<close>

definition upsert_data :: "ParsedProperty \<Rightarrow> nat \<Rightarrow> Property" where
  "upsert_data property i =
     \<lparr>p_id = i,
      p_street = street property, p_city = city property, p_state = state property,
      p_zip = zip_code property, p_county = None,
      p_source = source property, p_sourceId = sourceId property, p_url = url property,
      p_status = status_or (status property) ACTIVE,
      p_price = price property,
      p_propertyType = (case propertyType property of None \<Rightarrow> HOME | Some t \<Rightarrow> t),
      p_beds = beds property,
      p_baths = truthy_opt (baths property),
      p_sqft = sqft property,
      p_lotSize = truthy_opt (lotSize property),
      p_yearBuilt = None, p_builder = None, p_agent = None,
      p_images = images property,
      p_description = None\<rparr>"

text \<open>
  The data of the update in \<open>upsertProperty\<close>: \<open>data\<close> spread, then the four members that
  keep the existing value when the candidate has none.
\<close>

definition upsert_update :: "ParsedProperty \<Rightarrow> Property \<Rightarrow> Property \<Rightarrow> Property" where
  "upsert_update property existing row =
     row\<lparr>p_street := street property, p_city := city property, p_state := state property,
         p_zip := unless_undefined (zip_code property) (p_zip row),
         p_source := source property, p_sourceId := sourceId property, p_url := url property,
         p_status := status_or (status property) ACTIVE,
         p_price := price property,
         p_propertyType := (case propertyType property of None \<Rightarrow> HOME | Some t \<Rightarrow> t),
         p_lotSize := unless_undefined (truthy_opt (lotSize property)) (p_lotSize row),
         p_beds := nullish_or (beds property) (p_beds existing),
         p_baths := nullish_or (truthy_opt (baths property)) (p_baths existing),
         p_sqft := nullish_or (sqft property) (p_sqft existing),
         p_images := (if length (images property) > 0 then images property
                      else p_images existing)\<rparr>"

abbreviation (input) rows_after :: "ParsedProperty \<Rightarrow> Property \<Rightarrow> Property list \<Rightarrow> Property list" where
  "rows_after c e ps \<equiv> map (\<lambda>p. if p_id p = p_id e then upsert_update c e p else p) ps"

datatype upserted = Created | Updated

definition upsertProperty ::
  "jsdate \<Rightarrow> store \<Rightarrow> ParsedProperty \<Rightarrow> error + upserted \<times> store" where
  "upsertProperty now db property =
     (case resolveExisting db property of
        Some existing \<Rightarrow>
          (let oldPrice = p_price existing;
               newPrice = price property;
               priceChanged = (\<not> decimal_equals oldPrice newPrice)
           in case property_update db (p_id existing) (upsert_update property existing) of
                Inl e \<Rightarrow> Inl e
              | Inr db1 \<Rightarrow>
                  Inr (Updated,
                       if priceChanged
                       then priceHistory_create db1 (p_id existing) oldPrice newPrice now
                       else db1))
      | None \<Rightarrow>
          (case property_create db (upsert_data property) of
             Inl e \<Rightarrow> Inl e
           | Inr (savedProperty, db1) \<Rightarrow>
               Inr (Created,
                    case priceChange property of
                      None \<Rightarrow> db1
                    | Some pc \<Rightarrow>
                        priceHistory_create db1 (p_id savedProperty)
                          (number_add (price property) (amount pc)) (price property)
                          (date pc))))"

record ProcessResult =
  created :: nat
  updated :: nat
  errors :: "string list"

text \<open>The text of a thrown value inside a template string.\<close>

fun error_text :: "error \<Rightarrow> string" where
  "error_text (Error m) = ''Error: '' @ m"
| "error_text (PrismaClientKnownRequestError c) = ''PrismaClientKnownRequestError: '' @ c"

text \<open>
  The loop of \<open>processPropertyEmails\<close> over the fetched candidates. The clock reading
  \<open>now\<close> stands for every \<open>new Date()\<close> of one run.
\<close>

fun process_properties ::
  "jsdate \<Rightarrow> ParsedProperty list \<Rightarrow> ProcessResult \<times> store \<Rightarrow> ProcessResult \<times> store" where
  "process_properties now [] (res, db) = (res, db)"
| "process_properties now (property # rest) (res, db) =
     process_properties now rest
       (case upsertProperty now db property of
          Inr (Created, db') \<Rightarrow> (res\<lparr>created := created res + 1\<rparr>, db')
        | Inr (Updated, db') \<Rightarrow> (res\<lparr>updated := updated res + 1\<rparr>, db')
        | Inl e \<Rightarrow>
            (res\<lparr>errors := errors res @
                    [''Error processing property '' @ url property @ '': '' @ error_text e]\<rparr>,
             db))"

text \<open>
  \<open>processPropertyEmails\<close>, given what \<open>fetchPropertyEmails\<close> returned: the candidates, or
  the value it threw.
\<close>

definition processPropertyEmails ::
  "jsdate \<Rightarrow> store \<Rightarrow> error + ParsedProperty list \<Rightarrow> ProcessResult \<times> store" where
  "processPropertyEmails now db fetched =
     (case fetched of
        Inl e \<Rightarrow>
          (\<lparr>created = 0, updated = 0, errors = [''Error fetching emails: '' @ error_text e]\<rparr>, db)
      | Inr props \<Rightarrow>
          process_properties now props (\<lparr>created = 0, updated = 0, errors = []\<rparr>, db))"

subsection \<open>The earlier processor: saveProperty and updateProperty\<close>

definition saveProperty :: "store \<Rightarrow> ParsedProperty \<Rightarrow> error + store" where
  "saveProperty db property =
     (case property_create db
             (\<lambda>i. \<lparr>p_id = i,
                   p_street = street property, p_city = city property,
                   p_state = state property,
                   p_zip = zip_code property, p_county = county property,
                   p_source = source property, p_sourceId = sourceId property,
                   p_url = url property,
                   p_status = status_or (status property) ACTIVE,
                   p_price = price property,
                   p_propertyType = (case propertyType property of None \<Rightarrow> HOME | Some t \<Rightarrow> t),
                   p_beds = beds property,
                   p_baths = truthy_opt (baths property),
                   p_sqft = sqft property,
                   p_lotSize = truthy_opt (lotSize property),
                   p_yearBuilt = yearBuilt property, p_builder = builder property,
                   p_agent = agent property,
                   p_images = images property,
                   p_description = description property\<rparr>) of
        Inl e \<Rightarrow> Inl e
      | Inr (savedProperty, db1) \<Rightarrow>
          Inr (case priceChange property of
                 None \<Rightarrow> db1
               | Some pc \<Rightarrow>
                   priceHistory_create db1 (p_id savedProperty)
                     (number_add (price property) (amount pc)) (price property) (date pc)))"

text \<open>The data of the update in \<open>updateProperty\<close>.\<close>

definition update_merge :: "ParsedProperty \<Rightarrow> Property \<Rightarrow> Property \<Rightarrow> Property" where
  "update_merge property existing row =
     row\<lparr>p_price := price property,
         p_status := status_or (status property) (p_status existing),
         p_beds := nullish_or (beds property) (p_beds existing),
         p_baths := nullish_or (truthy_opt (baths property)) (p_baths existing),
         p_sqft := nullish_or (sqft property) (p_sqft existing),
         p_images := (if length (images property) > 0 then images property
                      else p_images existing),
         p_agent := nullish_or (agent property) (p_agent existing),
         p_builder := nullish_or (builder property) (p_builder existing)\<rparr>"

definition updateProperty :: "jsdate \<Rightarrow> store \<Rightarrow> ParsedProperty \<Rightarrow> error + store" where
  "updateProperty now db property =
     (case findUnique db (source property) (sourceId property) of
        None \<Rightarrow> Inl (Error ''Property not found for update'')
      | Some existing \<Rightarrow>
          (let oldPrice = p_price existing;
               newPrice = price property;
               priceChanged = (\<not> decimal_equals oldPrice newPrice)
           in case property_update db (p_id existing) (update_merge property existing) of
                Inl e \<Rightarrow> Inl e
              | Inr db1 \<Rightarrow>
                  Inr (if priceChanged
                       then priceHistory_create db1 (p_id existing) oldPrice newPrice now
                       else db1)))"

subsection \<open>Notions used in the statements\<close>

text \<open>The address test of the fallback, as one predicate on a row.\<close>

definition same_address :: "ParsedProperty \<Rightarrow> Property \<Rightarrow> bool" where
  "same_address c p =
     (toLowerCase (p_city p) = toLowerCase (city c)
      \<and> toLowerCase (p_state p) = toLowerCase (state c)
      \<and> normalizeAddress (p_street p) (p_city p) (p_state p)
          = normalizeAddress (street c) (city c) (state c))"

text \<open>What a store looks like right after one upsert: its rows, and the row just written.\<close>

definition written :: "store \<Rightarrow> ParsedProperty \<Rightarrow> Property" where
  "written db c =
     (case resolveExisting db c of
        None \<Rightarrow> upsert_data c (nextId db)
      | Some e \<Rightarrow> upsert_update c e e)"

definition rows_written :: "store \<Rightarrow> ParsedProperty \<Rightarrow> Property list" where
  "rows_written db c =
     (case resolveExisting db c of
        None \<Rightarrow> properties db @ [upsert_data c (nextId db)]
      | Some e \<Rightarrow> rows_after c e (properties db))"

section \<open>Field extractors (utils.ts)\<close>

text \<open>
  \<open>parseInt(s, 10)\<close> and \<open>parseFloat(s)\<close> on the strings the program passes, which are made
  of digits, commas and periods: the longest leading decimal numeral, \<open>NaN\<close> when there is
  none.
\<close>

definition digit_value :: "char \<Rightarrow> int" where
  "digit_value c = (case map_of (zip ''0123456789'' [0, 1, 2, 3, 4, 5, 6, 7, 8, 9]) c of
                      None \<Rightarrow> 0 | Some d \<Rightarrow> d)"

definition digits_value :: "string \<Rightarrow> int" where
  "digits_value s = foldl (\<lambda>n c. 10 * n + digit_value c) 0 s"

definition parseInt :: "string \<Rightarrow> number" where
  "parseInt s =
     (let ds = takeWhile isDigit s
      in if ds = [] then NaN else Num (of_int (digits_value ds)))"

definition parseFloat :: "string \<Rightarrow> number" where
  "parseFloat s =
     (let ip = takeWhile isDigit s;
          rest = dropWhile isDigit s;
          fp = (case rest of
                  [] \<Rightarrow> []
                | c # r \<Rightarrow> if c = CHR ''.'' then takeWhile isDigit r else [])
      in if ip = [] \<and> fp = [] then NaN
         else Num (of_int (digits_value ip) + of_int (digits_value fp) / 10 ^ length fp))"

text \<open>\<open>priceStr.replace(/[$,]/g, "")\<close>, then \<open>parseFloat\<close>.\<close>

definition parsePrice :: "string \<Rightarrow> number" where
  "parsePrice priceStr =
     parseFloat (replace_all (Cls (\<lambda>x. x = CHR ''$'' \<or> x = CHR '','')) (\<lambda>g. []) None priceStr)"

record Specs =
  s_beds :: "number option"
  s_baths :: "number option"
  s_sqft :: "number option"

text \<open>\<open>/(\d+)\s*(?:bd|beds?|bedrooms?)/i\<close>\<close>

definition rx_beds :: rx where
  "rx_beds =
     seqs [Grp 1 (plus rx_digit), Star rx_space,
           alts [lit_i ''bd'', seqs [lit_i ''bed'', opt (chr_i (CHR ''s''))],
                 seqs [lit_i ''bedroom'', opt (chr_i (CHR ''s''))]]]"

text \<open>\<open>/([\d.]+)\s*(?:ba|baths?|bathrooms?)/i\<close>\<close>

definition rx_baths :: rx where
  "rx_baths =
     seqs [Grp 1 (plus (Cls (\<lambda>x. isDigit x \<or> x = CHR ''.''))), Star rx_space,
           alts [lit_i ''ba'', seqs [lit_i ''bath'', opt (chr_i (CHR ''s''))],
                 seqs [lit_i ''bathroom'', opt (chr_i (CHR ''s''))]]]"

text \<open>\<open>/([\d,]+)\s*(?:sqft|sq\.?\s*ft\.?)/i\<close>\<close>

definition rx_sqft :: rx where
  "rx_sqft =
     seqs [Grp 1 (plus (Cls (\<lambda>x. isDigit x \<or> x = CHR '',''))), Star rx_space,
           alts [lit_i ''sqft'',
                 seqs [lit_i ''sq'', opt (chr (CHR ''.'')), Star rx_space, lit_i ''ft'',
                       opt (chr (CHR ''.''))]]]"

definition parseSpecs :: "string \<Rightarrow> Specs" where
  "parseSpecs specsStr =
     \<lparr>s_beds = (case str_match rx_beds specsStr of
                  None \<Rightarrow> None
                | Some (m, g) \<Rightarrow> Some (parseInt (orEmpty (grp g 1)))),
      s_baths = (case str_match rx_baths specsStr of
                   None \<Rightarrow> None
                 | Some (m, g) \<Rightarrow> Some (parseFloat (orEmpty (grp g 1)))),
      s_sqft = (case str_match rx_sqft specsStr of
                  None \<Rightarrow> None
                | Some (m, g) \<Rightarrow>
                    Some (parseInt (replace_all (chr (CHR '','')) (\<lambda>g. []) None
                                      (orEmpty (grp g 1)))))\<rparr>"

text \<open>\<open>/\$(\d+)K\s*\((\d+)\/(\d+)\)/\<close>; the year is the clock's.\<close>

definition rx_price_change :: rx where
  "rx_price_change =
     seqs [chr (CHR ''$''), Grp 1 (plus rx_digit), chr (CHR ''K''), Star rx_space,
           chr (CHR ''(''), Grp 2 (plus rx_digit), chr (CHR ''/''), Grp 3 (plus rx_digit),
           chr (CHR '')'')]"

definition parsePriceChange :: "int \<Rightarrow> string \<Rightarrow> PriceChange option" where
  "parsePriceChange year priceChangeStr =
     (case str_match rx_price_change priceChangeStr of
        None \<Rightarrow> None
      | Some (m, g) \<Rightarrow>
          (let amt = number_mul (parseInt (orEmpty (grp g 1))) (Num 1000);
               month = parseInt (orEmpty (grp g 2));
               day = parseInt (orEmpty (grp g 3))
           in Some \<lparr>amount = amt,
                     date = DateYMD (Num (of_int year)) (number_add month (Num (- 1))) day\<rparr>))"

text \<open>
  The patterns of \<open>extractListingId\<close>: \<open>/\/(\d+)_zpid/\<close>, \<open>/\/home\/(\d+)/\<close>,
  \<open>/M(\d+-\d+)/\<close> and \<open>/\/(\d+)\/?$/\<close>.
\<close>

definition rx_zpid :: rx where
  "rx_zpid = seqs [chr (CHR ''/''), Grp 1 (plus rx_digit), lit ''_zpid'']"

definition rx_home_id :: rx where
  "rx_home_id = seqs [lit ''/home/'', Grp 1 (plus rx_digit)]"

definition rx_realtor_id :: rx where
  "rx_realtor_id =
     seqs [chr (CHR ''M''), Grp 1 (seqs [plus rx_digit, chr (CHR ''-''), plus rx_digit])]"

definition rx_land_id :: rx where
  "rx_land_id = seqs [chr (CHR ''/''), Grp 1 (plus rx_digit), opt (chr (CHR ''/'')), Eol]"

definition group1_or :: "rx \<Rightarrow> string \<Rightarrow> string" where
  "group1_or r u =
     (case str_match r u of
        None \<Rightarrow> u
      | Some (m, g) \<Rightarrow> (case grp g 1 of None \<Rightarrow> u | Some i \<Rightarrow> i))"

definition extractListingId :: "string \<Rightarrow> string \<Rightarrow> string" where
  "extractListingId u src =
     (if src = ''zillow'' then group1_or rx_zpid u
      else if src = ''redfin'' then group1_or rx_home_id u
      else if src = ''realtor'' then group1_or rx_realtor_id u
      else if src = ''land'' then group1_or rx_land_id u
      else u)"

definition determineSource :: "string \<Rightarrow> string option \<Rightarrow> string" where
  "determineSource email u =
     (let lowerEmail = toLowerCase email;
          lowerUrl = (case u of None \<Rightarrow> [] | Some v \<Rightarrow> toLowerCase v)
      in if str_includes lowerEmail ''zillow'' \<or> str_includes lowerEmail ''mail.zillow''
            \<or> str_includes lowerUrl ''zillow'' then ''zillow''
         else if str_includes lowerEmail ''redfin'' \<or> str_includes lowerUrl ''redfin''
         then ''redfin''
         else if str_includes lowerEmail ''realtor''
                 \<or> str_includes lowerEmail ''notifications.realtor''
                 \<or> str_includes lowerUrl ''realtor'' \<or> str_includes lowerUrl ''move.com''
         then ''realtor''
         else if str_includes lowerEmail ''land.com'' \<or> str_includes lowerEmail ''land''
                 \<or> str_includes lowerUrl ''land.com''
         then ''land''
         else ''unknown'')"

section \<open>Source parsers (parser.ts)\<close>

text \<open>
  The parsers read the HTML through four queries only: the anchors with an \<open>href\<close>, in
  document order; for an anchor, its nearest enclosing \<open>table\<close> and its nearest enclosing
  \<open>table\<close>, \<open>div\<close> or \<open>td\<close>; for such a container, its flattened text and the \<open>src\<close> of
  its first image. A document is modelled as the answers to these queries.
\<close>

record card =
  card_text :: string
  card_img :: "string option"

record anchor =
  href :: string
  closest_table :: "card option"
  closest_block :: "card option"

type_synonym document = "anchor list"

definition select_href :: "document \<Rightarrow> string \<Rightarrow> anchor list" where
  "select_href doc sub = filter (\<lambda>a. str_includes (href a) sub) doc"

text \<open>\<open>$card.text()\<close> and the image source of a container that may be missing.\<close>

definition text_of :: "card option \<Rightarrow> string" where
  "text_of c = (case c of None \<Rightarrow> [] | Some k \<Rightarrow> card_text k)"

definition img_of :: "card option \<Rightarrow> string option" where
  "img_of c = (case c of None \<Rightarrow> None | Some k \<Rightarrow> card_img k)"

text \<open>The object literal a parser pushes: the address spread, then the named members.\<close>

definition property_of ::
  "Address \<Rightarrow> string \<Rightarrow> string \<Rightarrow> string \<Rightarrow> number \<Rightarrow> Specs \<Rightarrow> string list \<Rightarrow> ParsedProperty" where
  "property_of address src sid u p specs imgs =
     \<lparr>street = street address, city = city address, state = state address,
      zip_code = zip_code address, county = None, source = src, sourceId = sid, url = u,
      status = None, price = p, priceChange = None, propertyType = None,
      beds = s_beds specs, baths = s_baths specs, sqft = s_sqft specs, lotSize = None,
      yearBuilt = None, builder = None, agent = None, images = imgs, description = None\<rparr>"

definition no_specs :: Specs where
  "no_specs = \<lparr>s_beds = None, s_baths = None, s_sqft = None\<rparr>"

text \<open>\<open>/\$[\d,]+/\<close>\<close>

definition rx_price :: rx where
  "rx_price = seqs [chr (CHR ''$''), plus (Cls (\<lambda>x. isDigit x \<or> x = CHR '',''))]"

definition rx_not_comma :: rx where
  "rx_not_comma = Cls (\<lambda>x. x \<noteq> CHR '','')"

definition rx_STATE :: rx where
  "rx_STATE = seqs [Cls isUpper, Cls isUpper]"

definition rx_zip_tail :: rx where
  "rx_zip_tail = opt (seqs [plus rx_space, rx_digit, rx_digit, rx_digit, rx_digit, rx_digit])"

text \<open>\<open>/\d+\s+[^,]+,\s*[^,]+,\s*[A-Z]{2}(?:\s+\d{5})?/\<close>\<close>

definition rx_address_zillow :: rx where
  "rx_address_zillow =
     seqs [plus rx_digit, plus rx_space, plus rx_not_comma, chr (CHR '',''), Star rx_space,
           plus rx_not_comma, chr (CHR '',''), Star rx_space, rx_STATE, rx_zip_tail]"

text \<open>\<open>/\d+\s+[^,]+,\s*[^,]+,\s*[A-Z]{2}/\<close>\<close>

definition rx_address_redfin :: rx where
  "rx_address_redfin =
     seqs [plus rx_digit, plus rx_space, plus rx_not_comma, chr (CHR '',''), Star rx_space,
           plus rx_not_comma, chr (CHR '',''), Star rx_space, rx_STATE]"

text \<open>\<open>/\d+\s+[^,\n]+(?:,|\n)\s*[^,\n]+(?:,|\n)\s*[A-Z]{2}(?:\s+\d{5})?/\<close>\<close>

definition rx_not_comma_nl :: rx where
  "rx_not_comma_nl = Cls (\<lambda>x. x \<noteq> CHR '','' \<and> x \<noteq> CHR 0x0A)"

definition rx_comma_or_nl :: rx where
  "rx_comma_or_nl = Alt (chr (CHR '','')) (chr (CHR 0x0A))"

definition rx_address_realtor :: rx where
  "rx_address_realtor =
     seqs [plus rx_digit, plus rx_space, plus rx_not_comma_nl, rx_comma_or_nl, Star rx_space,
           plus rx_not_comma_nl, rx_comma_or_nl, Star rx_space, rx_STATE, rx_zip_tail]"

text \<open>\<open>/[^,]+,\s*[^,]+,\s*[A-Z]{2}/\<close>\<close>

definition rx_address_land :: rx where
  "rx_address_land =
     seqs [plus rx_not_comma, chr (CHR '',''), Star rx_space, plus rx_not_comma,
           chr (CHR '',''), Star rx_space, rx_STATE]"

text \<open>\<open>/^.*?(\d+\s+[A-Za-z])/s\<close>, replaced by its group.\<close>

definition rx_street_number :: rx where
  "rx_street_number =
     seqs [Bol, StarLazy rx_any,
           Grp 1 (seqs [plus rx_digit, plus rx_space, Cls (\<lambda>x. isUpper x \<or> isLower x)])]"

definition group1 :: "caps \<Rightarrow> string" where
  "group1 g = orEmpty (grp g 1)"

subsection \<open>Zillow\<close>

text \<open>
  The chain of replacements on the address match: \<open>/^\d+\s*sqft\s*/i\<close>,
  \<open>/^\d+\s*\n+/g\<close>, \<open>/^\d+\s*bd.*?sqft\s*/is\<close>, \<open>/^.*?(\d+\s+[A-Za-z])/s\<close>, then \<open>trim\<close>.
\<close>

definition zillow_clean :: "string \<Rightarrow> string" where
  "zillow_clean m =
     (let a = replace_first (seqs [Bol, plus rx_digit, Star rx_space, lit_i ''sqft'',
                                   Star rx_space]) (\<lambda>g. []) m;
          a = replace_all (seqs [Bol, plus rx_digit, Star rx_space, plus (chr (CHR 0x0A))])
                          (\<lambda>g. []) None a;
          a = replace_first (seqs [Bol, plus rx_digit, Star rx_space, lit_i ''bd'',
                                   StarLazy rx_any, lit_i ''sqft'', Star rx_space])
                            (\<lambda>g. []) a;
          a = replace_first rx_street_number group1 a
      in trim a)"

text \<open>The image list of the Zillow and Realtor parsers.\<close>

definition real_image :: "string option \<Rightarrow> string list" where
  "real_image i =
     (case i of
        None \<Rightarrow> []
      | Some s \<Rightarrow>
          if s \<noteq> [] \<and> \<not> str_includes s ''spacer'' \<and> \<not> str_includes s ''pixel'' then [s]
          else [])"

text \<open>The image list of the Redfin and Land parsers.\<close>

definition any_image :: "string option \<Rightarrow> string list" where
  "any_image i = (case i of None \<Rightarrow> [] | Some s \<Rightarrow> if s \<noteq> [] then [s] else [])"

text \<open>
  The body of the \<open>each\<close> callback: what is pushed for one anchor, and the set of seen
  link targets afterwards. An exception inside the callback is caught there, so the anchor
  pushes nothing; the link target was added before \<open>parseAddress\<close> could throw.
\<close>

definition zillow_link ::
  "string \<Rightarrow> string list \<Rightarrow> anchor \<Rightarrow> ParsedProperty option \<times> string list" where
  "zillow_link src seenUrls a =
     (let u = href a in
      if u = [] then (None, seenUrls)
      else if str_includes u ''unsubscribe'' \<or> str_includes u ''settings''
              \<or> str_includes u ''_web_'' then (None, seenUrls)
      else if u \<in> set seenUrls then (None, seenUrls)
      else (case closest_table a of
              None \<Rightarrow> (None, seenUrls)
            | Some k \<Rightarrow>
                (let txt = card_text k in
                 case (str_match rx_price txt, str_match rx_address_zillow txt) of
                   (Some (pm, pg), Some (am, ag)) \<Rightarrow>
                     (case parseAddress (zillow_clean am) of
                        Inl e \<Rightarrow> (None, u # seenUrls)
                      | Inr address \<Rightarrow>
                          (Some (property_of address src u u (parsePrice pm) (parseSpecs txt)
                                   (real_image (card_img k))),
                           u # seenUrls))
                 | _ \<Rightarrow> (None, seenUrls))))"

text \<open>The loop of \<open>each\<close> over the selected anchors, pushing to \<open>properties\<close>.\<close>

fun each_link ::
  "(string list \<Rightarrow> anchor \<Rightarrow> ParsedProperty option \<times> string list) \<Rightarrow>
   anchor list \<Rightarrow> ParsedProperty list \<times> string list \<Rightarrow> ParsedProperty list \<times> string list" where
  "each_link f [] (props, seenUrls) = (props, seenUrls)"
| "each_link f (a # as) (props, seenUrls) =
     (case f seenUrls a of
        (None, seen') \<Rightarrow> each_link f as (props, seen')
      | (Some p, seen') \<Rightarrow> each_link f as (props @ [p], seen'))"

definition parseZillowEmail :: "document \<Rightarrow> string \<Rightarrow> ParsedProperty list" where
  "parseZillowEmail doc src =
     fst (each_link (zillow_link src) (select_href doc ''zillow.com'') ([], []))"

subsection \<open>Redfin\<close>

text \<open>\<open>/Price cut:\s*\$\d+K\s*\(\d+\/\d+\)/\<close>\<close>

definition rx_price_cut :: rx where
  "rx_price_cut =
     seqs [lit ''Price cut:'', Star rx_space, chr (CHR ''$''), plus rx_digit, chr (CHR ''K''),
           Star rx_space, chr (CHR ''(''), plus rx_digit, chr (CHR ''/''), plus rx_digit,
           chr (CHR '')'')]"

text \<open>
  \<open>/^\d+\s*Sq\.\s*Ft\.\s*/i\<close> removed, \<open>trim\<close>, then \<open>/\n+/g\<close> and \<open>/\s+/g\<close> replaced by
  one space.
\<close>

definition redfin_clean :: "string \<Rightarrow> string" where
  "redfin_clean m =
     (let a = trim (replace_first
                      (seqs [Bol, plus rx_digit, Star rx_space, lit_i ''Sq'', chr (CHR ''.''),
                             Star rx_space, lit_i ''Ft'', chr (CHR ''.''), Star rx_space])
                      (\<lambda>g. []) m);
          a = replace_all (plus (chr (CHR 0x0A))) (\<lambda>g. '' '') None a
      in replace_all rx_spaces (\<lambda>g. '' '') None a)"

definition redfin_link ::
  "int \<Rightarrow> string \<Rightarrow> string list \<Rightarrow> anchor \<Rightarrow> ParsedProperty option \<times> string list" where
  "redfin_link year src seenUrls a =
     (let u = href a in
      if u = [] \<or> \<not> str_includes u ''/home/'' then (None, seenUrls)
      else
        (let txt = text_of (closest_block a) in
         case str_match rx_price txt of
           None \<Rightarrow> (None, seenUrls)
         | Some (pm, pg) \<Rightarrow>
             (let pc = (case str_match rx_price_cut txt of
                          None \<Rightarrow> None
                        | Some (cm, cg) \<Rightarrow> parsePriceChange year cm)
              in case str_match rx_address_redfin txt of
                   None \<Rightarrow> (None, seenUrls)
                 | Some (am, ag) \<Rightarrow>
                     (case parseAddress (redfin_clean am) of
                        Inl e \<Rightarrow> (None, seenUrls)
                      | Inr address \<Rightarrow>
                          (Some ((property_of address src (extractListingId u src) u
                                    (parsePrice pm) (parseSpecs txt)
                                    (any_image (img_of (closest_block a))))
                                   \<lparr>priceChange := pc,
                                    status := (if str_includes (toLowerCase txt)
                                                     ''new construction''
                                               then Some ''New construction'' else None)\<rparr>),
                           seenUrls)))))"

definition parseRedfinEmail :: "int \<Rightarrow> document \<Rightarrow> string \<Rightarrow> ParsedProperty list" where
  "parseRedfinEmail year doc src =
     fst (each_link (redfin_link year src) (select_href doc ''redfin.com'') ([], []))"

subsection \<open>Realtor.com\<close>

text \<open>
  \<open>/\n+/g\<close> and \<open>/\s+/g\<close> replaced by one space, \<open>/^\d+\s*bed.*?sqft\s*/i\<close> removed,
  \<open>/^.*?(\d+\s+[A-Za-z])/s\<close> replaced by its group, \<open>trim\<close>; then a comma is put between
  a street-type abbreviation and a capitalized word that follows it directly:
  \<open>/\b(St|Ave|Rd|Dr|Ct|Ln|Blvd|Way|Pl|Cir|Ter|Pkwy|Trl)([A-Z][a-z]+)/\<close> becomes
  \<open>$1, $2\<close>.
\<close>

definition rx_missing_comma :: rx where
  "rx_missing_comma =
     seqs [WordB,
           Grp 1 (alts (map lit [''St'', ''Ave'', ''Rd'', ''Dr'', ''Ct'', ''Ln'', ''Blvd'', ''Way'',
                                 ''Pl'', ''Cir'', ''Ter'', ''Pkwy'', ''Trl''])),
           Grp 2 (seqs [Cls isUpper, plus (Cls isLower)])]"

definition realtor_clean :: "string \<Rightarrow> string" where
  "realtor_clean m =
     (let a = replace_all (plus (chr (CHR 0x0A))) (\<lambda>g. '' '') None m;
          a = replace_all rx_spaces (\<lambda>g. '' '') None a;
          a = replace_first (seqs [Bol, plus rx_digit, Star rx_space, lit_i ''bed'',
                                   StarLazy rx_dot, lit_i ''sqft'', Star rx_space])
                            (\<lambda>g. []) a;
          a = trim (replace_first rx_street_number group1 a)
      in replace_first rx_missing_comma
           (\<lambda>g. orEmpty (grp g 1) @ '', '' @ orEmpty (grp g 2)) a)"

definition realtor_link ::
  "string \<Rightarrow> string list \<Rightarrow> anchor \<Rightarrow> ParsedProperty option \<times> string list" where
  "realtor_link src seenUrls a =
     (let u = href a in
      if u = [] then (None, seenUrls)
      else if str_includes u ''unsubscribe'' \<or> str_includes u ''privacy''
              \<or> str_includes (toLowerCase u) ''keep searching'' then (None, seenUrls)
      else if u \<in> set seenUrls then (None, seenUrls)
      else (case closest_table a of
              None \<Rightarrow> (None, seenUrls)
            | Some k \<Rightarrow>
                (let txt = card_text k in
                 case (str_match rx_price txt, str_match rx_address_realtor txt) of
                   (Some (pm, pg), Some (am, ag)) \<Rightarrow>
                     (case parseAddress (realtor_clean am) of
                        Inl e \<Rightarrow> (None, u # seenUrls)
                      | Inr address \<Rightarrow>
                          (Some (property_of address src u u (parsePrice pm) (parseSpecs txt)
                                   (real_image (card_img k))),
                           u # seenUrls))
                 | _ \<Rightarrow> (None, seenUrls))))"

definition parseRealtorEmail :: "document \<Rightarrow> string \<Rightarrow> ParsedProperty list" where
  "parseRealtorEmail doc src =
     fst (each_link (realtor_link src)
            (filter (\<lambda>a. str_includes (href a) ''realtor.com'' \<or> str_includes (href a) ''move.com'')
                    doc)
            ([], []))"

subsection \<open>Land.com\<close>

text \<open>\<open>/([\d.]+)\s*acres?/i\<close>\<close>

definition rx_acres :: rx where
  "rx_acres =
     seqs [Grp 1 (plus (Cls (\<lambda>x. isDigit x \<or> x = CHR ''.''))), Star rx_space, lit_i ''acre'',
           opt (chr_i (CHR ''s''))]"

definition land_link ::
  "string \<Rightarrow> string list \<Rightarrow> anchor \<Rightarrow> ParsedProperty option \<times> string list" where
  "land_link src seenUrls a =
     (let u = href a in
      if u = [] then (None, seenUrls)
      else
        (let txt = text_of (closest_block a) in
         case str_match rx_price txt of
           None \<Rightarrow> (None, seenUrls)
         | Some (pm, pg) \<Rightarrow>
             (case str_match rx_address_land txt of
                None \<Rightarrow> (None, seenUrls)
              | Some (am, ag) \<Rightarrow>
                  (case parseAddress am of
                     Inl e \<Rightarrow> (None, seenUrls)
                   | Inr address \<Rightarrow>
                       (Some ((property_of address src (extractListingId u src) u
                                 (parsePrice pm) no_specs (any_image (img_of (closest_block a))))
                                \<lparr>lotSize := (case str_match rx_acres txt of
                                               None \<Rightarrow> None
                                             | Some (lm, lg) \<Rightarrow> Some (parseFloat (group1 lg))),
                                 propertyType := Some LAND\<rparr>),
                        seenUrls)))))"

definition parseLandEmail :: "document \<Rightarrow> string \<Rightarrow> ParsedProperty list" where
  "parseLandEmail doc src =
     fst (each_link (land_link src) (select_href doc ''land.com'') ([], []))"

subsection \<open>Dispatch on the sender\<close>

record EmailParserResult =
  r_properties :: "ParsedProperty list"
  r_errors :: "string list"

definition parsePropertyEmail :: "int \<Rightarrow> document \<Rightarrow> string \<Rightarrow> EmailParserResult" where
  "parsePropertyEmail year doc fromEmail =
     (let src = determineSource fromEmail None in
      if src = ''zillow'' then \<lparr>r_properties = parseZillowEmail doc src, r_errors = []\<rparr>
      else if src = ''redfin'' then \<lparr>r_properties = parseRedfinEmail year doc src, r_errors = []\<rparr>
      else if src = ''realtor'' then \<lparr>r_properties = parseRealtorEmail doc src, r_errors = []\<rparr>
      else if src = ''land'' then \<lparr>r_properties = parseLandEmail doc src, r_errors = []\<rparr>
      else \<lparr>r_properties = [], r_errors = [''Unknown email source: '' @ fromEmail]\<rparr>)"

section \<open>The fetcher and the whole run (fetcher.ts, processor.ts)\<close>

text \<open>
  What the mailbox hands over: for each unread message the sender text and the HTML body
  (\<open>None\<close> when the message has none), or the error of the connection. The fetcher
  parses each body, writes the parser's errors to the console and keeps the candidates.
\<close>

record message =
  from_text :: string
  html :: "document option"

definition fetchPropertyEmails ::
  "int \<Rightarrow> error + message list \<Rightarrow> error + ParsedProperty list" where
  "fetchPropertyEmails year mailbox =
     (case mailbox of
        Inl e \<Rightarrow> Inl e
      | Inr msgs \<Rightarrow>
          Inr (concat (map (\<lambda>m. case html m of
                                   None \<Rightarrow> []
                                 | Some doc \<Rightarrow>
                                     r_properties (parsePropertyEmail year doc (from_text m)))
                           msgs)))"

definition run_pipeline ::
  "int \<Rightarrow> jsdate \<Rightarrow> store \<Rightarrow> error + message list \<Rightarrow> ProcessResult \<times> store" where
  "run_pipeline year now db mailbox =
     processPropertyEmails now db (fetchPropertyEmails year mailbox)"

section \<open>Example data\<close>

text \<open>A candidate with the mandatory members only.\<close>

definition example_listing ::
  "string \<Rightarrow> string \<Rightarrow> string \<Rightarrow> string \<Rightarrow> string \<Rightarrow> string \<Rightarrow> rat \<Rightarrow> ParsedProperty" where
  "example_listing astreet acity astate src sid u p =
     \<lparr>street = astreet, city = acity, state = astate, zip_code = None,
      county = None, source = src, sourceId = sid, url = u, status = None,
      price = Num p, priceChange = None, propertyType = None, beds = None, baths = None,
      sqft = None, lotSize = None, yearBuilt = None, builder = None, agent = None,
      images = [], description = None\<rparr>"

text \<open>One house seen through two tracking links, its address written in two ways.\<close>

definition listing_a :: ParsedProperty where
  "listing_a =
     example_listing ''123 North Main Street'' ''Anytown'' ''CA'' ''zillow''
       ''https://click.mail.zillow.com/a'' ''https://click.mail.zillow.com/a'' 250000"

definition listing_b :: ParsedProperty where
  "listing_b =
     example_listing ''123 Main St'' ''Anytown'' ''CA'' ''zillow''
       ''https://click.mail.zillow.com/b'' ''https://click.mail.zillow.com/b'' 250000"

definition listing_zip :: ParsedProperty where
  "listing_zip = listing_a\<lparr>zip_code := Some ''90210''\<rparr>"

text \<open>A Redfin listing, as its alert is parsed, with a price cut, and marked pending.\<close>

definition redfin_url :: string where
  "redfin_url = ''https://www.redfin.com/SC/Troy/9-Elm-Rd/home/777''"

definition redfin_listing :: ParsedProperty where
  "redfin_listing = example_listing ''9 Elm Rd'' ''Troy'' ''SC'' ''redfin'' ''777'' redfin_url 118000"

definition listing_cut :: ParsedProperty where
  "listing_cut =
     redfin_listing\<lparr>priceChange :=
                      Some \<lparr>amount = Num 2000, date = DateYMD (Num 2025) (Num 9) (Num 5)\<rparr>\<rparr>"


text \<open>The store after one run over a single candidate, starting empty.\<close>

definition store_after :: "ParsedProperty \<Rightarrow> store" where
  "store_after c = snd (processPropertyEmails (DateAt 1) empty_store (Inr [c]))"

text \<open>An anchor inside a listing card with the given text, and a message holding it.\<close>

definition example_anchor :: "string \<Rightarrow> string \<Rightarrow> anchor" where
  "example_anchor u txt =
     \<lparr>href = u,
      closest_table = Some \<lparr>card_text = txt, card_img = None\<rparr>,
      closest_block = Some \<lparr>card_text = txt, card_img = None\<rparr>\<rparr>"

definition redfin_anchor :: anchor where
  "redfin_anchor = example_anchor redfin_url ''9 Elm Rd, Troy, SC $118,000''"

definition land_anchor :: anchor where
  "land_anchor =
     example_anchor ''https://www.land.com/property/12345/'' ''9 Elm Rd, Troy, SC $118,000''"

definition zillow_anchor :: anchor where
  "zillow_anchor =
     example_anchor ''https://click.mail.zillow.com/x1'' ''9 Elm Rd, Troy, SC $118,000''"

definition realtor_anchor :: anchor where
  "realtor_anchor = example_anchor ''https://www.realtor.com/x1'' ''9 Elm Rd, Troy, SC $118,000''"

definition redfin_mail :: "string \<Rightarrow> error + message list" where
  "redfin_mail txt =
     Inr [\<lparr>from_text = ''Redfin <listings@redfin.com>'',
           html = Some [example_anchor redfin_url txt]\<rparr>]"

definition unknown_message :: message where
  "unknown_message = \<lparr>from_text = ''alerts@example.org'', html = Some [redfin_anchor]\<rparr>"

section \<open>Properties of the address parser\<close>

lemma split_ws_ne: "split_ws s \<noteq> []"
  by (subst split_ws.simps) (simp add: Let_def)

lemma length_split_comma: "length (split_comma s) = Suc (count_list s (CHR '',''))"
  by (induction s) (auto split: list.splits)

lemma in_set_dropWhile: "x \<in> set xs \<Longrightarrow> \<not> P x \<Longrightarrow> x \<in> set (dropWhile P xs)"
  by (induction xs) auto

lemma comma_not_space: "\<not> isSpace (CHR '','')"
  by (simp add: isSpace_def)

lemma comma_in_trim: "CHR '','' \<in> set (trim s) \<longleftrightarrow> CHR '','' \<in> set s"
proof
  assume "CHR '','' \<in> set (trim s)"
  then show "CHR '','' \<in> set s"
    unfolding trim_def by (auto dest!: set_dropWhileD)
next
  assume "CHR '','' \<in> set s"
  then show "CHR '','' \<in> set (trim s)"
    unfolding trim_def by (simp add: in_set_dropWhile comma_not_space)
qed

lemma dropWhile_rev_prefix: "\<exists>w. rev (dropWhile P (rev u)) @ w = u"
proof -
  have "rev (takeWhile P (rev u) @ dropWhile P (rev u)) = u"
    by (simp only: takeWhile_dropWhile_id rev_rev_ident)
  then have "rev (dropWhile P (rev u)) @ rev (takeWhile P (rev u)) = u"
    by (simp only: rev_append)
  then show ?thesis by blast
qed

lemma trim_hd: "trim s \<noteq> [] \<Longrightarrow> \<not> isSpace (hd (trim s))"
proof -
  assume ne: "trim s \<noteq> []"
  let ?u = "dropWhile isSpace s"
  obtain w where w: "trim s @ w = ?u" unfolding trim_def using dropWhile_rev_prefix by blast
  with ne have "?u \<noteq> []" by (metis append_is_Nil_conv)
  then have "\<not> isSpace (hd ?u)" by (rule hd_dropWhile)
  moreover have "hd ?u = hd (trim s)" using w ne by (metis hd_append2)
  ultimately show ?thesis by simp
qed

lemma trim_last: "trim s \<noteq> [] \<Longrightarrow> \<not> isSpace (last (trim s))"
proof -
  assume ne: "trim s \<noteq> []"
  let ?v = "dropWhile isSpace (rev (dropWhile isSpace s))"
  from ne have "?v \<noteq> []" by (simp add: trim_def)
  then have "\<not> isSpace (hd ?v)" by (rule hd_dropWhile)
  moreover have "last (trim s) = hd ?v" using \<open>?v \<noteq> []\<close> by (simp add: trim_def last_rev)
  ultimately show ?thesis by simp
qed

lemma dropWhile_id_hd: "xs = [] \<or> \<not> P (hd xs) \<Longrightarrow> dropWhile P xs = xs"
  by (cases xs) auto

lemma trim_idem: "trim (trim s) = trim s"
proof (cases "trim s = []")
  case True
  moreover have "trim [] = []" by (simp add: trim_def)
  ultimately show ?thesis by simp
next
  case False
  let ?t = "trim s"
  have h: "\<not> isSpace (hd ?t)" and l: "\<not> isSpace (last ?t)"
    using False trim_hd trim_last by auto
  have 1: "dropWhile isSpace ?t = ?t" using h by (simp add: dropWhile_id_hd)
  have "hd (rev ?t) = last ?t" using False by (simp add: hd_rev)
  then have 2: "dropWhile isSpace (rev ?t) = rev ?t" using l by (simp add: dropWhile_id_hd)
  show ?thesis unfolding trim_def [of ?t] by (simp add: 1 2)
qed

lemma parts_of_trimmed: "i < length (parts_of a) \<Longrightarrow> trim (parts_of a ! i) = parts_of a ! i"
  by (simp add: parts_of_def trim_idem)

lemma last_nth_opt: "xs \<noteq> [] \<Longrightarrow> nth_opt xs (length xs - Suc 0) = Some (last xs)"
  by (simp add: nth_opt_def last_conv_nth)

text \<open>
  Claim C7. \<open>parseAddress\<close> throws exactly when the input has fewer than two
  comma-separated segments, that is, when it has no comma. With exactly two segments, the
  second is split at whitespace; a last token of five digits is taken as the zip, the token
  that is then last is the state (empty when none is left) and the tokens before it, joined
  by spaces, are the city. With three or more segments the second is the city, and the
  third is split at whitespace; when it has more than one token and the last one is five
  digits, that token is the zip and the others, joined, are the state; otherwise all the
  tokens, joined, are the state.
\<close>

theorem parseAddress_cases:
  "(isl (parseAddress a) \<longleftrightarrow> length (parts_of a) < 2)
   \<and> (length (parts_of a) < 2 \<longleftrightarrow> CHR '','' \<notin> set a)
   \<and> (length (parts_of a) < 2 \<longrightarrow>
        parseAddress a = Inl (Error (''Invalid address format: '' @ a)))
   \<and> (length (parts_of a) = 2 \<longrightarrow>
        (let ts = split_ws (parts_of a ! 1) in
         parseAddress a = Inr
           (if zipMatch (last ts)
            then \<lparr>street = parts_of a ! 0, city = join_sp (butlast (butlast ts)),
                  state = (if butlast ts = [] then [] else last (butlast ts)),
                  zip_code = Some (last ts)\<rparr>
            else \<lparr>street = parts_of a ! 0, city = join_sp (butlast ts),
                  state = last ts, zip_code = None\<rparr>)))
   \<and> (3 \<le> length (parts_of a) \<longrightarrow>
        (let ts = split_ws (parts_of a ! 2) in
         parseAddress a = Inr
           (if 1 < length ts \<and> zipMatch (last ts)
            then \<lparr>street = parts_of a ! 0, city = parts_of a ! 1,
                  state = join_sp (butlast ts), zip_code = Some (last ts)\<rparr>
            else \<lparr>street = parts_of a ! 0, city = parts_of a ! 1,
                  state = join_sp ts, zip_code = None\<rparr>)))"
proof (intro conjI impI)
  show "isl (parseAddress a) \<longleftrightarrow> length (parts_of a) < 2"
    by (simp add: parseAddress_def Let_def split: prod.splits)
next
  have "length (parts_of a) = Suc (count_list (trim a) (CHR '',''))"
    by (simp add: parts_of_def length_split_comma)
  moreover have "count_list (trim a) (CHR '','') = 0 \<longleftrightarrow> CHR '','' \<notin> set a"
    by (simp add: count_list_0_iff comma_in_trim)
  ultimately show "length (parts_of a) < 2 \<longleftrightarrow> CHR '','' \<notin> set a" by auto
next
  assume "length (parts_of a) < 2"
  then show "parseAddress a = Inl (Error (''Invalid address format: '' @ a))"
    by (simp add: parseAddress_def)
next
  assume len: "length (parts_of a) = 2"
  then have t: "trim (parts_of a ! Suc 0) = parts_of a ! Suc 0"
    using parts_of_trimmed [of "Suc 0" a] by simp
  show "let ts = split_ws (parts_of a ! 1) in
         parseAddress a = Inr
           (if zipMatch (last ts)
            then \<lparr>street = parts_of a ! 0, city = join_sp (butlast (butlast ts)),
                  state = (if butlast ts = [] then [] else last (butlast ts)),
                  zip_code = Some (last ts)\<rparr>
            else \<lparr>street = parts_of a ! 0, city = join_sp (butlast ts),
                  state = last ts, zip_code = None\<rparr>)"
    using len
    by (simp add: parseAddress_def Let_def t last_nth_opt split_ws_ne pop_def orEmpty_def)
next
  assume len: "3 \<le> length (parts_of a)"
  then have t: "trim (parts_of a ! 2) = parts_of a ! 2" by (simp add: parts_of_trimmed)
  show "let ts = split_ws (parts_of a ! 2) in
         parseAddress a = Inr
           (if 1 < length ts \<and> zipMatch (last ts)
            then \<lparr>street = parts_of a ! 0, city = parts_of a ! 1,
                  state = join_sp (butlast ts), zip_code = Some (last ts)\<rparr>
            else \<lparr>street = parts_of a ! 0, city = parts_of a ! 1,
                  state = join_sp ts, zip_code = None\<rparr>)"
    using len
    by (auto simp add: parseAddress_def Let_def t last_nth_opt split_ws_ne pop_def orEmpty_def)
qed

lemma parts_examples:
  "parts_of ''8 Elm St, Troy SC 29307'' = [''8 Elm St'', ''Troy SC 29307'']"
  "parts_of ''8007 Broadmead Ct, Spartanburg, SC 29307'' = [''8007 Broadmead Ct'', ''Spartanburg'', ''SC 29307'']"
  "parts_of ''nowhere'' = [''nowhere'']"
  "split_ws ''Troy SC 29307'' = [''Troy'', ''SC'', ''29307'']"
  "split_ws ''SC 29307'' = [''SC'', ''29307'']"
  "zipMatch ''29307''"
  by code_simp+

theorem parseAddress_cases_witness:
  "length (parts_of ''nowhere'') < 2
   \<and> parseAddress ''nowhere'' = Inl (Error ''Invalid address format: nowhere'')
   \<and> length (parts_of ''8 Elm St, Troy SC 29307'') = 2
   \<and> parseAddress ''8 Elm St, Troy SC 29307''
       = Inr \<lparr>street = ''8 Elm St'', city = ''Troy'', state = ''SC'', zip_code = Some ''29307''\<rparr>
   \<and> 3 \<le> length (parts_of ''8007 Broadmead Ct, Spartanburg, SC 29307'')
   \<and> parseAddress ''8007 Broadmead Ct, Spartanburg, SC 29307''
       = Inr \<lparr>street = ''8007 Broadmead Ct'', city = ''Spartanburg'', state = ''SC'',
              zip_code = Some ''29307''\<rparr>"
  using parseAddress_cases [of "''nowhere''"]
    parseAddress_cases [of "''8 Elm St, Troy SC 29307''"]
    parseAddress_cases [of "''8007 Broadmead Ct, Spartanburg, SC 29307''"]
  by (simp add: parts_examples Let_def)


section \<open>The store and the upsert\<close>

lemma resolve_None_findUnique:
  "resolveExisting db c = None \<Longrightarrow> findUnique db (source c) (sourceId c) = None"
  by (simp add: resolveExisting_def split: option.splits)

lemma resolve_mem: "resolveExisting db c = Some e \<Longrightarrow> e \<in> set (properties db)"
  by (auto simp: resolveExisting_def findUnique_def findMany_def Let_def find_Some_iff
           split: option.splits dest: nth_mem)

lemma findUnique_None_iff:
  "findUnique db src sid = None \<longleftrightarrow> (\<forall>p \<in> set (properties db). row_key p \<noteq> (src, sid))"
  by (auto simp: findUnique_def find_None_iff row_key_def)

lemma findUnique_Some_key:
  "findUnique db src sid = Some e \<Longrightarrow> e \<in> set (properties db) \<and> row_key e = (src, sid)"
  by (auto simp: findUnique_def find_Some_iff row_key_def)

lemma distinct_map_eq: "distinct (map f xs) \<Longrightarrow> x \<in> set xs \<Longrightarrow> y \<in> set xs \<Longrightarrow> f x = f y \<Longrightarrow> x = y"
  by (meson distinct_map inj_onD)

lemma upsert_update_id [simp]: "p_id (upsert_update c e row) = p_id row"
  by (simp add: upsert_update_def)

lemma upsert_update_key [simp]: "row_key (upsert_update c e row) = (source c, sourceId c)"
  by (simp add: upsert_update_def row_key_def)

lemma find_id_mem: "distinct (map p_id ps) \<Longrightarrow> e \<in> set ps \<Longrightarrow> find (\<lambda>p. p_id p = p_id e) ps = Some e"
  by (induction ps) (auto simp: image_iff)

text \<open>No other row carries the candidate's key once the lookup has settled on \<open>e\<close>.\<close>
lemma resolve_no_conflict:
  assumes wf: "wf_store db" and r: "resolveExisting db c = Some e"
  shows "\<forall>p \<in> set (properties db). p_id p \<noteq> p_id e \<longrightarrow> row_key p \<noteq> (source c, sourceId c)"
proof (cases "findUnique db (source c) (sourceId c)")
  case None
  then show ?thesis by (simp add: findUnique_None_iff)
next
  case (Some e')
  then have "e' = e" using r by (simp add: resolveExisting_def)
  then have e: "e \<in> set (properties db)" "row_key e = (source c, sourceId c)"
    using Some findUnique_Some_key by auto
  show ?thesis
  proof (intro ballI impI notI)
    fix p assume "p \<in> set (properties db)" "p_id p \<noteq> p_id e" "row_key p = (source c, sourceId c)"
    moreover have "distinct (map row_key (properties db))" using wf by (simp add: wf_store_def)
    ultimately have "p = e" using e distinct_map_eq [of row_key] by metis
    with \<open>p_id p \<noteq> p_id e\<close> show False by simp
  qed
qed

lemma property_update_ok:
  assumes wf: "wf_store db" and r: "resolveExisting db c = Some e"
  shows "property_update db (p_id e) (upsert_update c e)
         = Inr (db\<lparr>properties := map (\<lambda>p. if p_id p = p_id e then upsert_update c e p else p) (properties db)\<rparr>)"
proof -
  have e: "e \<in> set (properties db)" using r by (rule resolve_mem)
  have d: "distinct (map p_id (properties db))" using wf by (simp add: wf_store_def)
  have f: "find (\<lambda>p. p_id p = p_id e) (properties db) = Some e" using d e by (rule find_id_mem)
  have n: "\<not> list_ex (\<lambda>p. p_id p \<noteq> p_id e \<and> p_source p = source c \<and> p_sourceId p = sourceId c) (properties db)"
    using resolve_no_conflict [OF wf r] by (auto simp: list_ex_iff row_key_def)
  show ?thesis using n by (simp add: property_update_def f upsert_update_def)
qed

lemma upsert_Some:
  assumes wf: "wf_store db" and r: "resolveExisting db c = Some e"
  shows "upsertProperty now db c =
         Inr (Updated,
              if decimal_equals (p_price e) (price c)
              then db\<lparr>properties := map (\<lambda>p. if p_id p = p_id e then upsert_update c e p else p) (properties db)\<rparr>
              else priceHistory_create
                     (db\<lparr>properties := map (\<lambda>p. if p_id p = p_id e then upsert_update c e p else p) (properties db)\<rparr>)
                     (p_id e) (p_price e) (price c) now)"
  by (simp add: upsertProperty_def r property_update_ok [OF wf r] Let_def)

lemma upsert_data_simps [simp]:
  "p_id (upsert_data c i) = i"
  "p_source (upsert_data c i) = source c"
  "p_sourceId (upsert_data c i) = sourceId c"
  "p_price (upsert_data c i) = price c"
  "p_street (upsert_data c i) = street c"
  "p_city (upsert_data c i) = city c"
  "p_state (upsert_data c i) = state c"
  "row_key (upsert_data c i) = (source c, sourceId c)"
  by (simp_all add: upsert_data_def row_key_def)

lemma upsert_None:
  assumes r: "resolveExisting db c = None"
  shows "upsertProperty now db c =
         Inr (Created,
              case priceChange c of
                None \<Rightarrow> db\<lparr>properties := properties db @ [upsert_data c (nextId db)], nextId := Suc (nextId db)\<rparr>
              | Some pc \<Rightarrow> priceHistory_create
                   (db\<lparr>properties := properties db @ [upsert_data c (nextId db)], nextId := Suc (nextId db)\<rparr>)
                   (nextId db) (number_add (price c) (amount pc)) (price c) (date pc))"
proof -
  have "findUnique db (source c) (sourceId c) = None" using r by (rule resolve_None_findUnique)
  then have "\<not> list_ex (\<lambda>p. p_source p = source c \<and> p_sourceId p = sourceId c) (properties db)"
    by (auto simp: findUnique_None_iff list_ex_iff row_key_def)
  then show ?thesis
    by (simp add: upsertProperty_def r property_create_def Let_def split: option.splits)
qed


lemma distinct_keys_update:
  assumes "distinct (map p_id ps)" "distinct (map row_key ps)"
    and "\<forall>p \<in> set ps. p_id p \<noteq> i \<longrightarrow> row_key p \<noteq> k"
    and "\<And>p. row_key (f p) = k"
  shows "distinct (map row_key (map (\<lambda>p. if p_id p = i then f p else p) ps))"
  using assms(1-3)
proof (induction ps)
  case Nil
  then show ?case by simp
next
  case (Cons a ps)
  have ih: "distinct (map row_key (map (\<lambda>p. if p_id p = i then f p else p) ps))"
    using Cons by simp
  show ?case
  proof (cases "p_id a = i")
    case True
    then have "\<forall>p \<in> set ps. p_id p \<noteq> i" using Cons.prems(1) by (auto simp: image_iff)
    then have "\<forall>p \<in> set ps. row_key (if p_id p = i then f p else p) \<noteq> k"
      using Cons.prems(3) by auto
    then show ?thesis using True ih assms(4) by (auto simp: image_iff)
  next
    case False
    then have ka: "row_key a \<noteq> k" using Cons.prems(3) by simp
    have "\<forall>p \<in> set ps. row_key (if p_id p = i then f p else p) \<noteq> row_key a"
    proof
      fix p assume p: "p \<in> set ps"
      show "row_key (if p_id p = i then f p else p) \<noteq> row_key a"
      proof (cases "p_id p = i")
        case True
        then show ?thesis using ka assms(4) by simp
      next
        case False
        then show ?thesis using Cons.prems(2) p by (auto simp: image_iff)
      qed
    qed
    then show ?thesis using False ih by (auto simp: image_iff)
  qed
qed

lemma map_p_id_update: "(\<And>p. p_id (f p) = p_id p) \<Longrightarrow> map p_id (map (\<lambda>p. if p_id p = i then f p else p) ps) = map p_id ps"
  by (induction ps) auto

lemma wf_update:
  assumes wf: "wf_store db" and r: "resolveExisting db c = Some e"
  shows "wf_store (db\<lparr>properties := rows_after c e (properties db)\<rparr>)"
proof -
  have ids: "map p_id (rows_after c e (properties db)) = map p_id (properties db)"
    by (rule map_p_id_update) simp
  have keys: "distinct (map row_key (rows_after c e (properties db)))"
    using wf resolve_no_conflict [OF wf r]
    by (intro distinct_keys_update [where k = "(source c, sourceId c)"]) (auto simp: wf_store_def)
  have bound: "list_all (\<lambda>p. p_id p < nextId db) (rows_after c e (properties db))"
    using wf by (auto simp: wf_store_def list_all_iff)
  have d: "distinct (map p_id (rows_after c e (properties db)))"
    using wf by (simp only: ids) (simp add: wf_store_def)
  show ?thesis using d keys bound by (simp add: wf_store_def)
qed

lemma wf_history: "wf_store db \<Longrightarrow> wf_store (priceHistory_create db i a b d)"
  by (auto simp: wf_store_def priceHistory_create_def list_all_iff)

lemma wf_create:
  assumes wf: "wf_store db" and r: "resolveExisting db c = None"
  shows "wf_store (db\<lparr>properties := properties db @ [upsert_data c (nextId db)], nextId := Suc (nextId db)\<rparr>)"
proof -
  have "findUnique db (source c) (sourceId c) = None" using r by (rule resolve_None_findUnique)
  then have k: "\<forall>p \<in> set (properties db). row_key p \<noteq> (source c, sourceId c)"
    by (simp add: findUnique_None_iff)
  have i: "\<forall>p \<in> set (properties db). p_id p < nextId db" using wf by (simp add: wf_store_def list_all_iff)
  show ?thesis using wf k i by (auto simp: wf_store_def list_all_iff)
qed

lemma upsert_total:
  assumes wf: "wf_store db"
  shows "\<exists>r db'. upsertProperty now db c = Inr (r, db') \<and> wf_store db'"
proof (cases "resolveExisting db c")
  case None
  show ?thesis using wf_create [OF wf None] 
    by (auto simp: upsert_None [OF None] wf_history split: option.splits)
next
  case (Some e)
  show ?thesis using wf_update [OF wf Some]
    by (auto simp: upsert_Some [OF wf Some] wf_history)
qed


lemma find_filter: "find P (filter Q xs) = find (\<lambda>x. Q x \<and> P x) xs"
  by (induction xs) auto

lemma find_app: "find P (xs @ ys) = (case find P xs of None \<Rightarrow> find P ys | Some x \<Rightarrow> Some x)"
  by (induction xs) auto

lemma find_first_update:
  assumes "distinct (map p_id ps)" "find K ps = Some e" "K (f e)"
  shows "find K (map (\<lambda>p. if p_id p = p_id e then f p else p) ps) = Some (f e)"
  using assms(1,2)
proof (induction ps)
  case Nil
  then show ?case by simp
next
  case (Cons a ps)
  show ?case
  proof (cases "K a")
    case True
    then have "a = e" using Cons.prems(2) by simp
    then show ?thesis using assms(3) by simp
  next
    case False
    then have f: "find K ps = Some e" using Cons.prems(2) by simp
    then have "e \<in> set ps" by (auto simp: find_Some_iff)
    then have "p_id a \<noteq> p_id e" using Cons.prems(1) by (auto simp: image_iff)
    then show ?thesis using False f Cons by simp
  qed
qed

lemma find_new_update:
  assumes "distinct (map p_id ps)" "e \<in> set ps" "\<forall>p \<in> set ps. \<not> K p" "K (f e)"
  shows "find K (map (\<lambda>p. if p_id p = p_id e then f p else p) ps) = Some (f e)"
  using assms(1-3)
proof (induction ps)
  case Nil
  then show ?case by simp
next
  case (Cons a ps)
  show ?case
  proof (cases "a = e")
    case True
    then show ?thesis using assms(4) by simp
  next
    case False
    then have e: "e \<in> set ps" using Cons.prems(2) by simp
    then have "p_id a \<noteq> p_id e" using Cons.prems(1) by (auto simp: image_iff)
    then show ?thesis using e Cons by simp
  qed
qed


lemma resolve_char:
  "resolveExisting db c =
     (case findUnique db (source c) (sourceId c) of
        Some e \<Rightarrow> Some e
      | None \<Rightarrow> find (same_address c) (properties db))"
proof -
  have "same_address c =
          (\<lambda>p. (toLowerCase (p_city p) = toLowerCase (city c)
                \<and> toLowerCase (p_state p) = toLowerCase (state c))
               \<and> normalizeAddress (p_street p) (p_city p) (p_state p)
                   = normalizeAddress (street c) (city c) (state c))"
    by (simp add: fun_eq_iff same_address_def)
  then show ?thesis
    by (simp add: resolveExisting_def findMany_def find_filter Let_def split: option.splits)
qed


lemma same_address_update [simp]: "same_address c (upsert_update c e p)"
  by (simp add: same_address_def upsert_update_def)

lemma same_address_data [simp]: "same_address c (upsert_data c i)"
  by (simp add: same_address_def)

lemma findUnique_rows_key: "(findUnique db src sid = Some e) \<Longrightarrow> row_key e = (src, sid)"
  by (simp add: findUnique_Some_key)

lemma upsert_rows:
  assumes wf: "wf_store db" and u: "upsertProperty now db c = Inr (r, db')"
  shows "properties db' = rows_written db c"
proof (cases "resolveExisting db c")
  case None
  then show ?thesis using u
    by (auto simp: upsert_None [OF None] rows_written_def priceHistory_create_def split: option.splits)
next
  case (Some e)
  then show ?thesis using u
    by (auto simp: upsert_Some [OF wf Some] rows_written_def priceHistory_create_def split: if_splits)
qed

lemma written_findUnique:
  assumes wf: "wf_store db"
  shows "find (\<lambda>p. p_source p = source c \<and> p_sourceId p = sourceId c) (rows_written db c)
         = Some (written db c)"
proof (cases "resolveExisting db c")
  case None
  then have "findUnique db (source c) (sourceId c) = None" by (rule resolve_None_findUnique)
  then have "find (\<lambda>p. p_source p = source c \<and> p_sourceId p = sourceId c) (properties db) = None"
    by (simp add: findUnique_def)
  then show ?thesis using None by (simp add: rows_written_def written_def find_app)
next
  case (Some e)
  have d: "distinct (map p_id (properties db))" using wf by (simp add: wf_store_def)
  have e: "e \<in> set (properties db)" using Some by (rule resolve_mem)
  let ?K = "\<lambda>p. p_source p = source c \<and> p_sourceId p = sourceId c"
  have K: "?K (upsert_update c e e)" by (simp add: upsert_update_def)
  have "find ?K (rows_after c e (properties db)) = Some (upsert_update c e e)"
  proof (cases "findUnique db (source c) (sourceId c)")
    case None
    then have "\<forall>p \<in> set (properties db). \<not> ?K p" by (auto simp: findUnique_None_iff row_key_def)
    then show ?thesis using d e K by (intro find_new_update) auto
  next
    case (Some e')
    then have "e' = e" using \<open>resolveExisting db c = Some e\<close> by (simp add: resolveExisting_def)
    then have "find ?K (properties db) = Some e" using Some by (simp add: findUnique_def)
    then show ?thesis using d K by (intro find_first_update) auto
  qed
  then show ?thesis using Some by (simp add: rows_written_def written_def)
qed




section \<open>One upsert after another\<close>

lemma process_single:
  "upsertProperty now db c = Inr (r, db') \<Longrightarrow>
   processPropertyEmails now db (Inr [c]) =
     (\<lparr>created = (if r = Created then 1 else 0), updated = (if r = Updated then 1 else 0),
       errors = []\<rparr>, db')"
  by (cases r) (simp_all add: processPropertyEmails_def)

lemma upsert_findUnique:
  assumes wf: "wf_store db" and u: "upsertProperty now db c = Inr (r, db')"
  shows "findUnique db' (source c) (sourceId c) = Some (written db c)"
  using written_findUnique [OF wf] upsert_rows [OF wf u] by (simp add: findUnique_def)

lemma upsert_wf:
  assumes wf: "wf_store db" and u: "upsertProperty now db c = Inr (r, db')"
  shows "wf_store db'"
  using upsert_total [OF wf, of now c] u by auto

lemma written_simps [simp]:
  "p_source (written db c) = source c"
  "p_sourceId (written db c) = sourceId c"
  "p_price (written db c) = price c"
  "p_street (written db c) = street c"
  "p_city (written db c) = city c"
  "p_state (written db c) = state c"
  by (simp_all add: written_def upsert_update_def split: option.splits)

lemma history_after_update:
  assumes wf: "wf_store db" and r: "resolveExisting db c = Some e"
  shows "\<exists>db'. upsertProperty now db c = Inr (Updated, db')
           \<and> length (properties db') = length (properties db)
           \<and> priceHistory db' = priceHistory db @
               (if decimal_equals (p_price e) (price c) then []
                else [\<lparr>h_id = nextId db, propertyId = p_id e, oldPrice = p_price e,
                       newPrice = price c, changeDate = now\<rparr>])"
  by (simp add: upsert_Some [OF wf r] priceHistory_create_def)

text \<open>
  Starting from a well-formed store, a run keeps the store well-formed, reports no error
  and counts every candidate as created or updated.
\<close>

lemma process_properties_total:
  assumes "wf_store db"
  shows "wf_store (snd (process_properties now cs (res, db)))
         \<and> errors (fst (process_properties now cs (res, db))) = errors res
         \<and> created (fst (process_properties now cs (res, db)))
             + updated (fst (process_properties now cs (res, db)))
             = created res + updated res + length cs"
  using assms
proof (induction cs arbitrary: res db)
  case Nil
  then show ?case by simp
next
  case (Cons c cs)
  obtain r db' where u: "upsertProperty now db c = Inr (r, db')" and wf': "wf_store db'"
    using upsert_total [OF Cons.prems] by blast
  show ?case
  proof (cases r)
    case Created
    then show ?thesis using u Cons.IH [OF wf', of "res\<lparr>created := created res + 1\<rparr>"] by simp
  next
    case Updated
    then show ?thesis using u Cons.IH [OF wf', of "res\<lparr>updated := updated res + 1\<rparr>"] by simp
  qed
qed

text \<open>The earlier \<open>updateProperty\<close> on a row found by its identity.\<close>

lemma update_merge_key [simp]:
  "p_id (update_merge c e row) = p_id row"
  "p_source (update_merge c e row) = p_source row"
  "p_sourceId (update_merge c e row) = p_sourceId row"
  by (simp_all add: update_merge_def)

lemma updateProperty_found:
  assumes wf: "wf_store db" and f: "findUnique db (source c) (sourceId c) = Some e"
  shows "updateProperty now db c =
           Inr (if decimal_equals (p_price e) (price c)
                then db\<lparr>properties := map (\<lambda>p. if p_id p = p_id e then update_merge c e p else p)
                                            (properties db)\<rparr>
                else priceHistory_create
                       (db\<lparr>properties := map (\<lambda>p. if p_id p = p_id e then update_merge c e p else p)
                                              (properties db)\<rparr>)
                       (p_id e) (p_price e) (price c) now)"
proof -
  have e: "e \<in> set (properties db)" "row_key e = (source c, sourceId c)"
    using f findUnique_Some_key by auto
  have d: "distinct (map p_id (properties db))" "distinct (map row_key (properties db))"
    using wf by (simp_all add: wf_store_def)
  have i: "find (\<lambda>p. p_id p = p_id e) (properties db) = Some e" using d(1) e(1) by (rule find_id_mem)
  have "\<forall>p \<in> set (properties db). p_id p \<noteq> p_id e \<longrightarrow> row_key p \<noteq> row_key e"
    using d(2) e(1) distinct_map_eq [of row_key] by metis
  then have n: "\<not> list_ex (\<lambda>p. p_id p \<noteq> p_id e \<and> p_source p = p_source e
                              \<and> p_sourceId p = p_sourceId e) (properties db)"
    by (auto simp: list_ex_iff row_key_def)
  show ?thesis using n by (simp add: updateProperty_def f property_update_def i Let_def)
qed

lemma history_after_updateProperty:
  assumes wf: "wf_store db" and f: "findUnique db (source c) (sourceId c) = Some e"
  shows "\<exists>db'. updateProperty now db c = Inr db'
           \<and> priceHistory db' = priceHistory db @
               (if decimal_equals (p_price e) (price c) then []
                else [\<lparr>h_id = nextId db, propertyId = p_id e, oldPrice = p_price e,
                       newPrice = price c, changeDate = now\<rparr>])"
  by (simp add: updateProperty_found [OF wf f] priceHistory_create_def)

text \<open>A second upsert of the same candidate changes nothing.\<close>

lemma map_id_on: "(\<And>p. p \<in> set ps \<Longrightarrow> f p = p) \<Longrightarrow> map f ps = ps"
  by (induction ps) auto

lemma option_idem [simp]:
  "unless_undefined x x = x"
  "nullish_or x x = x"
  "unless_undefined x (unless_undefined x y) = unless_undefined x y"
  "nullish_or x (nullish_or x y) = nullish_or x y"
  by (simp_all add: unless_undefined_def nullish_or_def split: option.splits)

lemma upsert_update_data: "upsert_update c (upsert_data c i) (upsert_data c i) = upsert_data c i"
  by (simp add: upsert_update_def upsert_data_def)

lemma upsert_update_twice:
  "upsert_update c (upsert_update c e e) (upsert_update c e e) = upsert_update c e e"
  by (simp add: upsert_update_def)

lemma upsert_update_written: "upsert_update c (written db c) (written db c) = written db c"
  by (simp add: written_def upsert_update_data upsert_update_twice split: option.splits)

lemma rows_after_written:
  assumes d: "distinct (map p_id ps)" and m: "w \<in> set ps" and f: "upsert_update c w w = w"
  shows "rows_after c w ps = ps"
proof (rule map_id_on)
  fix p assume p: "p \<in> set ps"
  show "(if p_id p = p_id w then upsert_update c w p else p) = p"
  proof (cases "p_id p = p_id w")
    case True
    then have "p = w" using d p m distinct_map_eq [of p_id] by metis
    then show ?thesis using f by simp
  next
    case False
    then show ?thesis by simp
  qed
qed

lemma upsert_again:
  assumes wf: "wf_store db" and u: "upsertProperty now db c = Inr (r, db1)"
    and fin: "decimal_equals (price c) (price c)"
  shows "upsertProperty now' db1 c = Inr (Updated, db1)"
proof -
  have wf1: "wf_store db1" using wf u by (rule upsert_wf)
  let ?w = "written db c"
  have f: "findUnique db1 (source c) (sourceId c) = Some ?w" using wf u by (rule upsert_findUnique)
  then have r: "resolveExisting db1 c = Some ?w" by (simp add: resolveExisting_def)
  have m: "?w \<in> set (properties db1)" using r by (rule resolve_mem)
  have d: "distinct (map p_id (properties db1))" using wf1 by (simp add: wf_store_def)
  have "rows_after c ?w (properties db1) = properties db1"
    using d m upsert_update_written by (rule rows_after_written)
  then show ?thesis using fin by (simp add: upsert_Some [OF wf1 r])
qed

lemma process_again:
  assumes wf: "wf_store db" and fin: "price c = Num a"
  shows "processPropertyEmails now' (snd (processPropertyEmails now db (Inr [c]))) (Inr [c])
         = (\<lparr>created = 0, updated = 1, errors = []\<rparr>,
            snd (processPropertyEmails now db (Inr [c])))"
proof -
  obtain r db1 where u1: "upsertProperty now db c = Inr (r, db1)"
    using upsert_total [OF wf] by blast
  have "decimal_equals (price c) (price c)" using fin by simp
  with wf u1 have u2: "upsertProperty now' db1 c = Inr (Updated, db1)" by (rule upsert_again)
  show ?thesis using process_single [OF u1] process_single [OF u2] by simp
qed

text \<open>The empty store, and the store after one run from it.\<close>

lemma wf_empty: "wf_store empty_store"
  by (simp add: wf_store_def empty_store_def)


lemma resolve_empty: "resolveExisting empty_store c = None"
  by (simp add: resolveExisting_def findUnique_def findMany_def empty_store_def)

lemma upsert_empty:
  "upsertProperty now empty_store c =
     Inr (Created,
          case priceChange c of
            None \<Rightarrow> \<lparr>properties = [upsert_data c 0], priceHistory = [], nextId = 1\<rparr>
          | Some pc \<Rightarrow>
              \<lparr>properties = [upsert_data c 0],
               priceHistory = [\<lparr>h_id = 1, propertyId = 0,
                                oldPrice = number_add (price c) (amount pc), newPrice = price c,
                                changeDate = date pc\<rparr>],
               nextId = 2\<rparr>)"
  unfolding upsert_None [OF resolve_empty]
  by (simp add: empty_store_def priceHistory_create_def split: option.splits)

lemma process_empty:
  "processPropertyEmails now empty_store (Inr [c]) =
     (\<lparr>created = 1, updated = 0, errors = []\<rparr>,
      case priceChange c of
        None \<Rightarrow> \<lparr>properties = [upsert_data c 0], priceHistory = [], nextId = 1\<rparr>
      | Some pc \<Rightarrow>
          \<lparr>properties = [upsert_data c 0],
           priceHistory = [\<lparr>h_id = 1, propertyId = 0,
                            oldPrice = number_add (price c) (amount pc), newPrice = price c,
                            changeDate = date pc\<rparr>],
           nextId = 2\<rparr>)"
  using process_single [OF upsert_empty, of now c] by simp

lemma store_after_eq:
  "store_after c =
     (case priceChange c of
        None \<Rightarrow> \<lparr>properties = [upsert_data c 0], priceHistory = [], nextId = 1\<rparr>
      | Some pc \<Rightarrow>
          \<lparr>properties = [upsert_data c 0],
           priceHistory = [\<lparr>h_id = 1, propertyId = 0,
                            oldPrice = number_add (price c) (amount pc), newPrice = price c,
                            changeDate = date pc\<rparr>],
           nextId = 2\<rparr>)"
  by (simp add: store_after_def process_empty)

lemma wf_store_after: "wf_store (store_after c)"
  by (simp add: store_after_eq wf_store_def split: option.splits)

text \<open>The example messages, parsed.\<close>

lemma fetch_redfin:
  "fetchPropertyEmails 2025 (redfin_mail ''9 Elm Rd, Troy, SC $118,000'') = Inr [redfin_listing]"
  by code_simp

lemma fetch_redfin_raised:
  "fetchPropertyEmails 2025 (redfin_mail ''9 Elm Rd, Troy, SC $119,000'')
   = Inr [redfin_listing\<lparr>price := Num 119000\<rparr>]"
  by code_simp

lemma fetch_redfin_cut:
  "fetchPropertyEmails 2025 (redfin_mail ''9 Elm Rd, Troy, SC $118,000 Price cut: $2K (10/5)'')
   = Inr [listing_cut]"
  by code_simp

lemma redfin_listing_simps [simp]:
  "price redfin_listing = Num 118000"
  "source redfin_listing = ''redfin''"
  "sourceId redfin_listing = ''777''"
  "priceChange redfin_listing = None"
  "status redfin_listing = None"
  by (simp_all add: redfin_listing_def example_listing_def)


section \<open>Creation and price history\<close>

text \<open>
  Claim C5. When the lookup finds no row, the candidate is stored as a new row; a history
  row is written at that moment exactly when the candidate carries a price-change hint, and
  it runs from the candidate's price plus the hinted amount to the candidate's price, dated
  with the hint's date.
\<close>

theorem create_with_hint:
  assumes "resolveExisting db c = None"
  shows "\<exists>db'. upsertProperty now db c = Inr (Created, db')
           \<and> properties db' = properties db @ [upsert_data c (nextId db)]
           \<and> priceHistory db' = priceHistory db @
               (case priceChange c of
                  None \<Rightarrow> []
                | Some pc \<Rightarrow>
                    [\<lparr>h_id = Suc (nextId db), propertyId = nextId db,
                      oldPrice = number_add (price c) (amount pc), newPrice = price c,
                      changeDate = date pc\<rparr>])
           \<and> (length (priceHistory db') = Suc (length (priceHistory db))
                \<longleftrightarrow> priceChange c \<noteq> None)"
  by (simp add: upsert_None [OF assms] priceHistory_create_def split: option.splits)

theorem create_with_hint_witness:
  "resolveExisting empty_store listing_cut = None
   \<and> (\<exists>db'. upsertProperty (DateAt 1) empty_store listing_cut = Inr (Created, db')
         \<and> length (properties db') = 1
         \<and> priceHistory db' =
             [\<lparr>h_id = 1, propertyId = 0, oldPrice = Num 120000, newPrice = Num 118000,
               changeDate = DateYMD (Num 2025) (Num 9) (Num 5)\<rparr>])"
proof -
  obtain db' where u: "upsertProperty (DateAt 1) empty_store listing_cut = Inr (Created, db')"
    and p: "properties db' = properties empty_store @ [upsert_data listing_cut (nextId empty_store)]"
    and h: "priceHistory db' = priceHistory empty_store @
               (case priceChange listing_cut of
                  None \<Rightarrow> []
                | Some pc \<Rightarrow>
                    [\<lparr>h_id = Suc (nextId empty_store), propertyId = nextId empty_store,
                      oldPrice = number_add (price listing_cut) (amount pc),
                      newPrice = price listing_cut, changeDate = date pc\<rparr>])"
    using create_with_hint [OF resolve_empty, where c = listing_cut and now = "DateAt 1"]
    by blast
  have "length (properties db') = 1" using p by (simp add: empty_store_def)
  moreover have "priceHistory db' =
             [\<lparr>h_id = 1, propertyId = 0, oldPrice = Num 120000, newPrice = Num 118000,
               changeDate = DateYMD (Num 2025) (Num 9) (Num 5)\<rparr>]"
    using h by (simp add: empty_store_def listing_cut_def)
  ultimately show ?thesis using u resolve_empty by blast
qed

text \<open>
  Claim C2. On an update the stored price is compared with the candidate's by
  \<open>Decimal.equals\<close> before it is overwritten, and one history row with the stored price
  as \<open>oldPrice\<close>, the candidate's price as \<open>newPrice\<close> and the clock reading as
  \<open>changeDate\<close> is appended exactly when the two are not equal; the earlier
  \<open>updateProperty\<close> does the same. A run over a message and then a run over a message
  that gives the same candidate with another price updates the row of that identity and
  appends exactly one history row, from the first price to the second.
\<close>

theorem price_change_detection:
  assumes wf: "wf_store db"
  shows "(\<forall>e. resolveExisting db c = Some e \<longrightarrow>
            (\<exists>db'. upsertProperty now db c = Inr (Updated, db')
               \<and> priceHistory db' = priceHistory db @
                   (if decimal_equals (p_price e) (price c) then []
                    else [\<lparr>h_id = nextId db, propertyId = p_id e, oldPrice = p_price e,
                           newPrice = price c, changeDate = now\<rparr>])))
       \<and> (\<forall>e. findUnique db (source c) (sourceId c) = Some e \<longrightarrow>
            (\<exists>db'. updateProperty now db c = Inr db'
               \<and> priceHistory db' = priceHistory db @
                   (if decimal_equals (p_price e) (price c) then []
                    else [\<lparr>h_id = nextId db, propertyId = p_id e, oldPrice = p_price e,
                           newPrice = price c, changeDate = now\<rparr>])))
       \<and> (\<forall>a b mail mail'.
            fetchPropertyEmails year mail = Inr [c]
            \<and> fetchPropertyEmails year' mail' = Inr [c\<lparr>price := Num b\<rparr>]
            \<and> price c = Num a \<and> a \<noteq> b \<longrightarrow>
            (\<exists>res1 db1 db2 row.
               run_pipeline year now db mail = (res1, db1)
               \<and> findUnique db1 (source c) (sourceId c) = Some row
               \<and> run_pipeline year' now' db1 mail' = (\<lparr>created = 0, updated = 1, errors = []\<rparr>, db2)
               \<and> length (properties db2) = length (properties db1)
               \<and> priceHistory db2 = priceHistory db1 @
                   [\<lparr>h_id = nextId db1, propertyId = p_id row, oldPrice = Num a,
                     newPrice = Num b, changeDate = now'\<rparr>]))"
proof (intro conjI allI impI)
  fix e assume "resolveExisting db c = Some e"
  from history_after_update [OF wf this, of now]
  show "\<exists>db'. upsertProperty now db c = Inr (Updated, db')
               \<and> priceHistory db' = priceHistory db @
                   (if decimal_equals (p_price e) (price c) then []
                    else [\<lparr>h_id = nextId db, propertyId = p_id e, oldPrice = p_price e,
                           newPrice = price c, changeDate = now\<rparr>])"
    by blast
next
  fix e assume "findUnique db (source c) (sourceId c) = Some e"
  then show "\<exists>db'. updateProperty now db c = Inr db'
               \<and> priceHistory db' = priceHistory db @
                   (if decimal_equals (p_price e) (price c) then []
                    else [\<lparr>h_id = nextId db, propertyId = p_id e, oldPrice = p_price e,
                           newPrice = price c, changeDate = now\<rparr>])"
    by (rule history_after_updateProperty [OF wf])
next
  fix a b mail mail'
  assume h: "fetchPropertyEmails year mail = Inr [c]
            \<and> fetchPropertyEmails year' mail' = Inr [c\<lparr>price := Num b\<rparr>]
            \<and> price c = Num a \<and> a \<noteq> b"
  let ?c' = "c\<lparr>price := Num b\<rparr>"
  obtain r db1 where u1: "upsertProperty now db c = Inr (r, db1)" and wf1: "wf_store db1"
    using upsert_total [OF wf] by blast
  let ?row = "written db c"
  have f: "findUnique db1 (source c) (sourceId c) = Some ?row"
    using wf u1 by (rule upsert_findUnique)
  then have r2: "resolveExisting db1 ?c' = Some ?row" by (simp add: resolveExisting_def)
  obtain db2 where u2: "upsertProperty now' db1 ?c' = Inr (Updated, db2)"
    and l2: "length (properties db2) = length (properties db1)"
    and h2: "priceHistory db2 = priceHistory db1 @
               (if decimal_equals (p_price ?row) (price ?c') then []
                else [\<lparr>h_id = nextId db1, propertyId = p_id ?row, oldPrice = p_price ?row,
                       newPrice = price ?c', changeDate = now'\<rparr>])"
    using history_after_update [OF wf1 r2, of now'] by blast
  have p1: "run_pipeline year now db mail
            = (\<lparr>created = (if r = Created then 1 else 0), updated = (if r = Updated then 1 else 0),
                errors = []\<rparr>, db1)"
    using process_single [OF u1] h by (simp add: run_pipeline_def)
  have p2: "run_pipeline year' now' db1 mail' = (\<lparr>created = 0, updated = 1, errors = []\<rparr>, db2)"
    using process_single [OF u2] h by (simp add: run_pipeline_def)
  have h2': "priceHistory db2 = priceHistory db1 @
                   [\<lparr>h_id = nextId db1, propertyId = p_id ?row, oldPrice = Num a,
                     newPrice = Num b, changeDate = now'\<rparr>]"
    using h2 h by simp
  show "\<exists>res1 db1 db2 row.
               run_pipeline year now db mail = (res1, db1)
               \<and> findUnique db1 (source c) (sourceId c) = Some row
               \<and> run_pipeline year' now' db1 mail' = (\<lparr>created = 0, updated = 1, errors = []\<rparr>, db2)
               \<and> length (properties db2) = length (properties db1)
               \<and> priceHistory db2 = priceHistory db1 @
                   [\<lparr>h_id = nextId db1, propertyId = p_id row, oldPrice = Num a,
                     newPrice = Num b, changeDate = now'\<rparr>]"
    using p1 f p2 l2 h2' by blast
qed

lemma resolve_raised:
  "resolveExisting (store_after redfin_listing) (redfin_listing\<lparr>price := Num 119000\<rparr>)
   = Some (upsert_data redfin_listing 0)"
  by (simp add: resolveExisting_def findUnique_def store_after_eq)

lemma findUnique_raised:
  "findUnique (store_after redfin_listing) (source (redfin_listing\<lparr>price := Num 119000\<rparr>))
     (sourceId (redfin_listing\<lparr>price := Num 119000\<rparr>))
   = Some (upsert_data redfin_listing 0)"
  by (simp add: findUnique_def store_after_eq)

theorem price_change_detection_witness:
  "wf_store (store_after redfin_listing) \<and> wf_store empty_store
   \<and> resolveExisting (store_after redfin_listing) (redfin_listing\<lparr>price := Num 119000\<rparr>)
       = Some (upsert_data redfin_listing 0)
   \<and> (\<exists>db'. upsertProperty (DateAt 2) (store_after redfin_listing)
                (redfin_listing\<lparr>price := Num 119000\<rparr>) = Inr (Updated, db')
          \<and> priceHistory db' =
              [\<lparr>h_id = 1, propertyId = 0, oldPrice = Num 118000, newPrice = Num 119000,
                changeDate = DateAt 2\<rparr>])
   \<and> findUnique (store_after redfin_listing) ''redfin'' ''777''
       = Some (upsert_data redfin_listing 0)
   \<and> (\<exists>db'. updateProperty (DateAt 2) (store_after redfin_listing)
                (redfin_listing\<lparr>price := Num 119000\<rparr>) = Inr db'
          \<and> priceHistory db' =
              [\<lparr>h_id = 1, propertyId = 0, oldPrice = Num 118000, newPrice = Num 119000,
                changeDate = DateAt 2\<rparr>])
   \<and> fetchPropertyEmails 2025 (redfin_mail ''9 Elm Rd, Troy, SC $118,000'') = Inr [redfin_listing]
   \<and> fetchPropertyEmails 2025 (redfin_mail ''9 Elm Rd, Troy, SC $119,000'')
       = Inr [redfin_listing\<lparr>price := Num 119000\<rparr>]
   \<and> price redfin_listing = Num 118000 \<and> (118000 :: rat) \<noteq> 119000
   \<and> (\<exists>res1 db1 db2 row.
         run_pipeline 2025 (DateAt 1) empty_store (redfin_mail ''9 Elm Rd, Troy, SC $118,000'')
           = (res1, db1)
         \<and> findUnique db1 ''redfin'' ''777'' = Some row
         \<and> run_pipeline 2025 (DateAt 2) db1 (redfin_mail ''9 Elm Rd, Troy, SC $119,000'')
             = (\<lparr>created = 0, updated = 1, errors = []\<rparr>, db2)
         \<and> length (properties db2) = length (properties db1)
         \<and> priceHistory db2 = priceHistory db1 @
             [\<lparr>h_id = nextId db1, propertyId = p_id row, oldPrice = Num 118000,
               newPrice = Num 119000, changeDate = DateAt 2\<rparr>])"
proof -
  let ?c' = "redfin_listing\<lparr>price := Num 119000\<rparr>"
  note t = price_change_detection [OF wf_store_after, of redfin_listing ?c' "DateAt 2"]
  note a = t [THEN conjunct1, rule_format, OF resolve_raised]
  note b = t [THEN conjunct2, THEN conjunct1, rule_format, OF findUnique_raised]
  note c = price_change_detection [OF wf_empty, of redfin_listing "DateAt 1" 2025 2025 "DateAt 2",
              THEN conjunct2, THEN conjunct2, rule_format,
              of "redfin_mail ''9 Elm Rd, Troy, SC $118,000''"
                 "redfin_mail ''9 Elm Rd, Troy, SC $119,000''" 119000 118000]
  have k: "decimal_equals (p_price (upsert_data redfin_listing 0)) (price ?c') = False"
    "nextId (store_after redfin_listing) = 1"
    "priceHistory (store_after redfin_listing) = []"
    "p_id (upsert_data redfin_listing 0) = 0"
    "p_price (upsert_data redfin_listing 0) = Num 118000"
    "price ?c' = Num 119000"
    by (simp_all add: store_after_eq)
  have a': "\<exists>db'. upsertProperty (DateAt 2) (store_after redfin_listing) ?c' = Inr (Updated, db')
          \<and> priceHistory db' =
              [\<lparr>h_id = 1, propertyId = 0, oldPrice = Num 118000, newPrice = Num 119000,
                changeDate = DateAt 2\<rparr>]"
    using a unfolding k by simp
  have b': "\<exists>db'. updateProperty (DateAt 2) (store_after redfin_listing) ?c' = Inr db'
          \<and> priceHistory db' =
              [\<lparr>h_id = 1, propertyId = 0, oldPrice = Num 118000, newPrice = Num 119000,
                changeDate = DateAt 2\<rparr>]"
    using b unfolding k by simp
  have c': "\<exists>res1 db1 db2 row.
         run_pipeline 2025 (DateAt 1) empty_store (redfin_mail ''9 Elm Rd, Troy, SC $118,000'')
           = (res1, db1)
         \<and> findUnique db1 ''redfin'' ''777'' = Some row
         \<and> run_pipeline 2025 (DateAt 2) db1 (redfin_mail ''9 Elm Rd, Troy, SC $119,000'')
             = (\<lparr>created = 0, updated = 1, errors = []\<rparr>, db2)
         \<and> length (properties db2) = length (properties db1)
         \<and> priceHistory db2 = priceHistory db1 @
             [\<lparr>h_id = nextId db1, propertyId = p_id row, oldPrice = Num 118000,
               newPrice = Num 119000, changeDate = DateAt 2\<rparr>]"
    using c fetch_redfin fetch_redfin_raised by simp
  have f: "findUnique (store_after redfin_listing) ''redfin'' ''777''
           = Some (upsert_data redfin_listing 0)"
    using findUnique_raised by simp
  show ?thesis
    using a' b' c' f wf_store_after wf_empty resolve_raised fetch_redfin fetch_redfin_raised
    by simp
qed


section \<open>Repeated observations\<close>

text \<open>
  Claim C3, amended. Running the pipeline twice on the same message, which holds one
  listing with a finite price, is idempotent: the second run counts one update and no
  creation, reports no error, and leaves the store exactly as the first run left it, so it
  adds neither a row nor a history row. Starting from the empty store the first run
  creates the one row, and the history holds what that creation wrote: nothing for a
  listing without a price-change hint, the one synthesized row for a listing with a hint.
\<close>

theorem rerun_idempotent:
  assumes "wf_store db" and "fetchPropertyEmails year mail = Inr [c]" and "price c = Num a"
  shows "\<exists>res1 db1.
           run_pipeline year now db mail = (res1, db1)
           \<and> run_pipeline year now' db1 mail = (\<lparr>created = 0, updated = 1, errors = []\<rparr>, db1)
           \<and> (db = empty_store \<longrightarrow>
                res1 = \<lparr>created = 1, updated = 0, errors = []\<rparr>
                \<and> length (properties db1) = 1
                \<and> priceHistory db1 =
                    (case priceChange c of
                       None \<Rightarrow> []
                     | Some pc \<Rightarrow>
                         [\<lparr>h_id = 1, propertyId = 0,
                           oldPrice = number_add (price c) (amount pc), newPrice = price c,
                           changeDate = date pc\<rparr>]))"
proof -
  obtain res1 db1 where p1: "processPropertyEmails now db (Inr [c]) = (res1, db1)"
    by (cases "processPropertyEmails now db (Inr [c])")
  have p2: "processPropertyEmails now' db1 (Inr [c]) = (\<lparr>created = 0, updated = 1, errors = []\<rparr>, db1)"
    using process_again [OF assms(1,3), of now' now] p1 by simp
  have e: "db = empty_store \<longrightarrow>
                res1 = \<lparr>created = 1, updated = 0, errors = []\<rparr>
                \<and> length (properties db1) = 1
                \<and> priceHistory db1 =
                    (case priceChange c of
                       None \<Rightarrow> []
                     | Some pc \<Rightarrow>
                         [\<lparr>h_id = 1, propertyId = 0,
                           oldPrice = number_add (price c) (amount pc), newPrice = price c,
                           changeDate = date pc\<rparr>])"
    using p1 by (auto simp: process_empty split: option.splits)
  show ?thesis using p1 p2 e assms(2) by (simp add: run_pipeline_def)
qed

theorem rerun_idempotent_witness:
  "wf_store empty_store
   \<and> fetchPropertyEmails 2025 (redfin_mail ''9 Elm Rd, Troy, SC $118,000'') = Inr [redfin_listing]
   \<and> price redfin_listing = Num 118000
   \<and> (\<exists>db1.
         run_pipeline 2025 (DateAt 1) empty_store (redfin_mail ''9 Elm Rd, Troy, SC $118,000'')
           = (\<lparr>created = 1, updated = 0, errors = []\<rparr>, db1)
         \<and> run_pipeline 2025 (DateAt 2) db1 (redfin_mail ''9 Elm Rd, Troy, SC $118,000'')
             = (\<lparr>created = 0, updated = 1, errors = []\<rparr>, db1)
         \<and> length (properties db1) = 1
         \<and> priceHistory db1 = [])"
  using rerun_idempotent [OF wf_empty fetch_redfin, of 118000 "DateAt 1" "DateAt 2"]
  by (auto simp: wf_empty fetch_redfin)

text \<open>
  The claim as stated promises an empty history after the second run. A Redfin alert that
  announces a price cut leaves one history row, written when the listing was created.
\<close>

theorem rerun_with_hint_counterexample:
  "length (properties (snd (run_pipeline 2025 (DateAt 2)
      (snd (run_pipeline 2025 (DateAt 1) empty_store
              (redfin_mail ''9 Elm Rd, Troy, SC $118,000 Price cut: $2K (10/5)'')))
      (redfin_mail ''9 Elm Rd, Troy, SC $118,000 Price cut: $2K (10/5)'')))) = 1
   \<and> priceHistory (snd (run_pipeline 2025 (DateAt 2)
      (snd (run_pipeline 2025 (DateAt 1) empty_store
              (redfin_mail ''9 Elm Rd, Troy, SC $118,000 Price cut: $2K (10/5)'')))
      (redfin_mail ''9 Elm Rd, Troy, SC $118,000 Price cut: $2K (10/5)'')))
     = [\<lparr>h_id = 1, propertyId = 0, oldPrice = Num 120000, newPrice = Num 118000,
         changeDate = DateYMD (Num 2025) (Num 9) (Num 5)\<rparr>]"
proof -
  let ?mail = "redfin_mail ''9 Elm Rd, Troy, SC $118,000 Price cut: $2K (10/5)''"
  have p: "price listing_cut = Num 118000" by (simp add: listing_cut_def)
  have s1: "snd (run_pipeline 2025 (DateAt 1) empty_store ?mail) = store_after listing_cut"
    by (simp only: run_pipeline_def fetch_redfin_cut store_after_def)
  have "processPropertyEmails (DateAt 2) (store_after listing_cut) (Inr [listing_cut])
        = (\<lparr>created = 0, updated = 1, errors = []\<rparr>, store_after listing_cut)"
    using wf_empty p unfolding store_after_def by (rule process_again)
  then have s2: "snd (run_pipeline 2025 (DateAt 2) (store_after listing_cut) ?mail)
                 = store_after listing_cut"
    by (simp only: run_pipeline_def fetch_redfin_cut snd_conv)
  show ?thesis
    by (simp only: s1 s2) (simp add: store_after_eq listing_cut_def)
qed

section \<open>Deduplication by address\<close>



lemma norm_a: "normalizeAddress ''123 North Main Street'' ''Anytown'' ''CA'' = ''123 main st|anytown|ca''"
  by code_simp

lemma norm_b: "normalizeAddress ''123 Main St'' ''Anytown'' ''CA'' = ''123 main st|anytown|ca''"
  by code_simp




section \<open>What an update overwrites\<close>

lemma find_none_update_others:
  assumes "\<forall>p \<in> set ps. p_id p \<noteq> i \<longrightarrow> \<not> K p" "\<And>p. \<not> K (f p)"
  shows "find K (map (\<lambda>p. if p_id p = i then f p else p) ps) = None"
  using assms by (induction ps) auto

lemma old_key_gone:
  assumes wf: "wf_store db" and e: "e \<in> set (properties db)"
    and k: "row_key e \<noteq> (source c, sourceId c)"
  shows "find (\<lambda>p. p_source p = p_source e \<and> p_sourceId p = p_sourceId e)
              (rows_after c e (properties db)) = None"
proof (rule find_none_update_others)
  show "\<And>p. \<not> (p_source (upsert_update c e p) = p_source e
                \<and> p_sourceId (upsert_update c e p) = p_sourceId e)"
    using k by (auto simp: upsert_update_def row_key_def)
  have d: "distinct (map row_key (properties db))" using wf by (simp add: wf_store_def)
  show "\<forall>p\<in>set (properties db). p_id p \<noteq> p_id e \<longrightarrow>
          \<not> (p_source p = p_source e \<and> p_sourceId p = p_sourceId e)"
  proof (intro ballI impI notI)
    fix p assume "p \<in> set (properties db)" "p_id p \<noteq> p_id e"
      "p_source p = p_source e \<and> p_sourceId p = p_sourceId e"
    moreover from this have "row_key p = row_key e" by (simp add: row_key_def)
    ultimately have "p = e" using d e distinct_map_eq [of row_key] by metis
    with \<open>p_id p \<noteq> p_id e\<close> show False by simp
  qed
qed

lemma upsert_update_fields:
  "p_source (upsert_update c e p) = source c"
  "p_sourceId (upsert_update c e p) = sourceId c"
  "p_street (upsert_update c e p) = street c"
  "p_city (upsert_update c e p) = city c"
  "p_state (upsert_update c e p) = state c"
  "p_price (upsert_update c e p) = price c"
  "p_url (upsert_update c e p) = url c"
  "p_propertyType (upsert_update c e p) = (case propertyType c of None \<Rightarrow> HOME | Some t \<Rightarrow> t)"
  "p_zip (upsert_update c e p) = (case zip_code c of None \<Rightarrow> p_zip p | Some z \<Rightarrow> Some z)"
  "p_status (upsert_update c e p) = status_or (status c) ACTIVE"
  "p_beds (upsert_update c e p) = nullish_or (beds c) (p_beds e)"
  "p_baths (upsert_update c e p) = nullish_or (truthy_opt (baths c)) (p_baths e)"
  "p_sqft (upsert_update c e p) = nullish_or (sqft c) (p_sqft e)"
  "p_images (upsert_update c e p) = (if images c = [] then p_images e else images c)"
  "p_agent (upsert_update c e p) = p_agent p"
  "p_builder (upsert_update c e p) = p_builder p"
  by (auto simp: upsert_update_def unless_undefined_def)

text \<open>
  Claim C10, amended. When the candidate's identity is not in the store and the lookup
  settles on a row through the address, the update overwrites the row's source, sourceId,
  url, street, city, state and price with the candidate's values and its property type
  with the candidate's or, when the candidate has none, with \<open>HOME\<close>; the zip is
  overwritten only when the candidate carries one and is kept otherwise. The row keeps its
  identifier, is found under the candidate's identity afterwards, and no row is found
  under its former identity.
\<close>

theorem identity_migrates:
  assumes wf: "wf_store db"
    and n: "findUnique db (source c) (sourceId c) = None"
    and r: "resolveExisting db c = Some e"
  shows "\<exists>db' row.
           upsertProperty now db c = Inr (Updated, db')
           \<and> findUnique db' (source c) (sourceId c) = Some row
           \<and> findUnique db' (p_source e) (p_sourceId e) = None
           \<and> p_id row = p_id e
           \<and> p_source row = source c \<and> p_sourceId row = sourceId c \<and> p_url row = url c
           \<and> p_street row = street c \<and> p_city row = city c \<and> p_state row = state c
           \<and> p_price row = price c
           \<and> p_propertyType row = (case propertyType c of None \<Rightarrow> HOME | Some t \<Rightarrow> t)
           \<and> p_zip row = (case zip_code c of None \<Rightarrow> p_zip e | Some z \<Rightarrow> Some z)"
proof -
  obtain db' where u: "upsertProperty now db c = Inr (Updated, db')"
    using history_after_update [OF wf r] by blast
  have rows: "properties db' = rows_after c e (properties db)"
    using upsert_rows [OF wf u] r by (simp add: rows_written_def)
  have w: "written db c = upsert_update c e e" using r by (simp add: written_def)
  have f: "findUnique db' (source c) (sourceId c) = Some (upsert_update c e e)"
    using upsert_findUnique [OF wf u] w by simp
  have e: "e \<in> set (properties db)" using r by (rule resolve_mem)
  then have "row_key e \<noteq> (source c, sourceId c)" using n by (simp add: findUnique_None_iff)
  then have g: "findUnique db' (p_source e) (p_sourceId e) = None"
    using old_key_gone [OF wf e] rows by (simp add: findUnique_def)
  show ?thesis using u f g by (simp add: upsert_update_fields)
qed

lemma resolve_listing_b:
  "resolveExisting (store_after listing_zip) listing_b = Some (upsert_data listing_zip 0)"
  by (simp add: resolve_char findUnique_def same_address_def store_after_eq listing_zip_def
        listing_a_def listing_b_def example_listing_def norm_a norm_b)

lemma findUnique_listing_b:
  "findUnique (store_after listing_zip) (source listing_b) (sourceId listing_b) = None"
  by (simp add: findUnique_def store_after_eq listing_zip_def
        listing_a_def listing_b_def example_listing_def)

theorem identity_migrates_witness:
  "wf_store (store_after listing_zip)
   \<and> findUnique (store_after listing_zip) (source listing_b) (sourceId listing_b) = None
   \<and> resolveExisting (store_after listing_zip) listing_b = Some (upsert_data listing_zip 0)
   \<and> (\<exists>db' row.
         upsertProperty (DateAt 2) (store_after listing_zip) listing_b = Inr (Updated, db')
         \<and> findUnique db' ''zillow'' ''https://click.mail.zillow.com/b'' = Some row
         \<and> findUnique db' ''zillow'' ''https://click.mail.zillow.com/a'' = None
         \<and> p_id row = 0
         \<and> p_street row = ''123 Main St''
         \<and> p_zip row = Some ''90210'')"
proof -
  obtain db' row where u: "upsertProperty (DateAt 2) (store_after listing_zip) listing_b = Inr (Updated, db')"
    and f: "findUnique db' (source listing_b) (sourceId listing_b) = Some row"
    and g: "findUnique db' (p_source (upsert_data listing_zip 0)) (p_sourceId (upsert_data listing_zip 0)) = None"
    and i: "p_id row = p_id (upsert_data listing_zip 0)"
    and s: "p_street row = street listing_b"
    and z: "p_zip row = (case zip_code listing_b of None \<Rightarrow> p_zip (upsert_data listing_zip 0) | Some z \<Rightarrow> Some z)"
    using identity_migrates [OF wf_store_after findUnique_listing_b resolve_listing_b, of "DateAt 2"]
    by blast
  have "findUnique db' ''zillow'' ''https://click.mail.zillow.com/b'' = Some row"
    using f by (simp add: listing_b_def example_listing_def)
  moreover have "findUnique db' ''zillow'' ''https://click.mail.zillow.com/a'' = None"
    using g by (simp add: listing_zip_def listing_a_def example_listing_def)
  moreover have "p_id row = 0" using i by simp
  moreover have "p_street row = ''123 Main St''"
    using s by (simp add: listing_b_def example_listing_def)
  moreover have "p_zip row = Some ''90210''"
    using z by (simp add: listing_b_def listing_zip_def listing_a_def example_listing_def
                  upsert_data_def)
  ultimately show ?thesis
    using u wf_store_after findUnique_listing_b resolve_listing_b by blast
qed

text \<open>
  The claim as stated has the zip overwritten with the candidate's value; a candidate
  without a zip leaves the stored zip in place while the identity moves.
\<close>

theorem zip_kept_counterexample:
  "zip_code listing_b = None
   \<and> map p_zip (properties (snd (processPropertyEmails (DateAt 2) (store_after listing_zip)
                                   (Inr [listing_b])))) = [Some ''90210'']
   \<and> map p_sourceId (properties (snd (processPropertyEmails (DateAt 2) (store_after listing_zip)
                                   (Inr [listing_b])))) = [''https://click.mail.zillow.com/b'']"
  by (simp add: processPropertyEmails_def upsert_Some [OF wf_store_after resolve_listing_b])
     (simp add: store_after_eq upsert_update_fields
        listing_b_def listing_zip_def listing_a_def example_listing_def upsert_data_def
        priceHistory_create_def)


lemma update_merge_fields:
  "p_status (update_merge c e p) = status_or (status c) (p_status e)"
  "p_beds (update_merge c e p) = nullish_or (beds c) (p_beds e)"
  "p_baths (update_merge c e p) = nullish_or (truthy_opt (baths c)) (p_baths e)"
  "p_sqft (update_merge c e p) = nullish_or (sqft c) (p_sqft e)"
  "p_images (update_merge c e p) = (if images c = [] then p_images e else images c)"
  "p_agent (update_merge c e p) = nullish_or (agent c) (p_agent e)"
  "p_builder (update_merge c e p) = nullish_or (builder c) (p_builder e)"
  by (auto simp: update_merge_def)






section \<open>The parsers\<close>

lemma property_of_url [simp]: "url (property_of ad src sid u p sp im) = u"
  by (simp add: property_of_def)

lemma each_link_distinct:
  assumes step: "\<And>seen a p seen'. f seen a = (Some p, seen') \<Longrightarrow>
                   url p \<notin> set seen \<and> url p \<in> set seen' \<and> set seen \<subseteq> set seen'"
    and skip: "\<And>seen a seen'. f seen a = (None, seen') \<Longrightarrow> set seen \<subseteq> set seen'"
    and inv: "distinct (map url props)" "url ` set props \<subseteq> set seen"
  shows "distinct (map url (fst (each_link f as (props, seen))))"
  using inv
proof (induction as arbitrary: props seen)
  case Nil
  then show ?case by simp
next
  case (Cons a as)
  obtain r seen' where f: "f seen a = (r, seen')" by (cases "f seen a")
  show ?case
  proof (cases r)
    case None
    then have "set seen \<subseteq> set seen'" using f skip by blast
    then have "url ` set props \<subseteq> set seen'" using Cons.prems(2) by blast
    then show ?thesis using f None Cons.IH [OF Cons.prems(1)] by simp
  next
    case (Some p)
    then have s: "url p \<notin> set seen" "url p \<in> set seen'" "set seen \<subseteq> set seen'"
      using f step by blast+
    have d: "distinct (map url (props @ [p]))" using Cons.prems s(1) by auto
    have i: "url ` set (props @ [p]) \<subseteq> set seen'" using Cons.prems(2) s(2,3) by auto
    show ?thesis using f Some Cons.IH [OF d i] by simp
  qed
qed

lemma zillow_link_Some:
  "zillow_link src seen a = (Some p, seen') \<Longrightarrow>
     url p \<notin> set seen \<and> url p \<in> set seen' \<and> set seen \<subseteq> set seen'"
  by (auto simp: zillow_link_def Let_def split: if_splits option.splits sum.splits prod.splits)

lemma zillow_link_None:
  "zillow_link src seen a = (None, seen') \<Longrightarrow> set seen \<subseteq> set seen'"
  by (auto simp: zillow_link_def Let_def split: if_splits option.splits sum.splits prod.splits)

lemma realtor_link_Some:
  "realtor_link src seen a = (Some p, seen') \<Longrightarrow>
     url p \<notin> set seen \<and> url p \<in> set seen' \<and> set seen \<subseteq> set seen'"
  by (auto simp: realtor_link_def Let_def split: if_splits option.splits sum.splits prod.splits)

lemma realtor_link_None:
  "realtor_link src seen a = (None, seen') \<Longrightarrow> set seen \<subseteq> set seen'"
  by (auto simp: realtor_link_def Let_def split: if_splits option.splits sum.splits prod.splits)

text \<open>The Zillow and Realtor parsers give each link target at most one candidate.\<close>

lemma zillow_urls_distinct: "distinct (map url (parseZillowEmail doc src))"
  unfolding parseZillowEmail_def
  by (rule each_link_distinct [OF zillow_link_Some zillow_link_None]) simp_all

lemma realtor_urls_distinct: "distinct (map url (parseRealtorEmail doc src))"
  unfolding parseRealtorEmail_def
  by (rule each_link_distinct [OF realtor_link_Some realtor_link_None]) simp_all

text \<open>
  Claim C8. Two anchors with the same link target give at most one candidate in the Zillow
  and Realtor parsers, which keep a set of the targets already used (lemmas
  \<open>zillow_urls_distinct\<close> and \<open>realtor_urls_distinct\<close>). The Redfin and Land parsers keep
  no such set: on a document whose listing card is linked twice with the same target, each
  of them returns two candidates with that target.
\<close>

theorem redfin_land_same_link_twice:
  "map url (parseRedfinEmail 2025 [redfin_anchor, redfin_anchor] ''redfin'')
     = [href redfin_anchor, href redfin_anchor]
   \<and> map url (parseLandEmail [land_anchor, land_anchor] ''land'')
     = [href land_anchor, href land_anchor]
   \<and> map url (parseZillowEmail [zillow_anchor, zillow_anchor] ''zillow'') = [href zillow_anchor]
   \<and> map url (parseRealtorEmail [realtor_anchor, realtor_anchor] ''realtor'')
     = [href realtor_anchor]"
  by code_simp

lemma unknown_example: "determineSource ''alerts@example.org'' None = ''unknown''"
  by code_simp

lemma parse_unknown:
  "determineSource fromEmail None = ''unknown'' \<Longrightarrow>
   parsePropertyEmail year doc fromEmail
     = \<lparr>r_properties = [], r_errors = [''Unknown email source: '' @ fromEmail]\<rparr>"
  by (simp add: parsePropertyEmail_def)

lemma fetch_skips_unknown:
  assumes "determineSource (from_text m) None = ''unknown''"
  shows "fetchPropertyEmails year (Inr (ms1 @ m # ms2)) = fetchPropertyEmails year (Inr (ms1 @ ms2))"
  using assms by (simp add: fetchPropertyEmails_def parse_unknown split: option.splits)

text \<open>
  Claim C9, amended. For a message whose sender matches no known source the parser returns
  no candidate and exactly one error text, whatever the document. The fetcher writes the
  parser's errors to the console and hands on the candidates only, so for the run the
  message might as well be absent: the counts of created and updated rows, the error list
  and the store are the same with and without it.
\<close>

theorem unknown_source_message:
  assumes "determineSource (from_text m) None = ''unknown''"
  shows "(\<forall>doc. parsePropertyEmail year doc (from_text m)
                 = \<lparr>r_properties = [], r_errors = [''Unknown email source: '' @ from_text m]\<rparr>)
         \<and> run_pipeline year now db (Inr (ms1 @ m # ms2))
             = run_pipeline year now db (Inr (ms1 @ ms2))"
  using assms by (simp add: parse_unknown run_pipeline_def fetch_skips_unknown)

theorem unknown_source_message_witness:
  "determineSource (from_text unknown_message) None = ''unknown''
   \<and> parsePropertyEmail 2025 [redfin_anchor] (from_text unknown_message)
       = \<lparr>r_properties = [], r_errors = [''Unknown email source: alerts@example.org'']\<rparr>
   \<and> run_pipeline 2025 (DateAt 1) empty_store (Inr [unknown_message])
       = (\<lparr>created = 0, updated = 0, errors = []\<rparr>, empty_store)"
proof -
  have u: "determineSource (from_text unknown_message) None = ''unknown''"
    by (simp add: unknown_message_def unknown_example)
  have "run_pipeline 2025 (DateAt 1) empty_store (Inr ([] @ unknown_message # []))
        = run_pipeline 2025 (DateAt 1) empty_store (Inr ([] @ []))"
    and "parsePropertyEmail 2025 [redfin_anchor] (from_text unknown_message)
         = \<lparr>r_properties = [], r_errors = [''Unknown email source: '' @ from_text unknown_message]\<rparr>"
    using unknown_source_message [OF u] by blast+
  then show ?thesis
    using u by (simp add: run_pipeline_def fetchPropertyEmails_def processPropertyEmails_def
                  unknown_message_def)
qed

text \<open>
  The claim as stated has one entry appended to the error list of the run; the run over a
  single message from an unknown sender returns an empty error list.
\<close>

theorem unknown_source_no_pipeline_error_counterexample:
  "r_errors (parsePropertyEmail 2025 [redfin_anchor] (from_text unknown_message))
     = [''Unknown email source: alerts@example.org'']
   \<and> errors (fst (run_pipeline 2025 (DateAt 1) empty_store (Inr [unknown_message]))) = []"
  by (simp add: run_pipeline_def fetchPropertyEmails_def processPropertyEmails_def
        unknown_message_def parse_unknown unknown_example)

lemma norm_hash: "normalizeAddress ''123 Main St #5'' ''Anytown'' ''CA'' = ''123 main st #5|anytown|ca''"
  by code_simp

lemma norm_apt: "normalizeAddress ''123 Main St Apt 5'' ''Anytown'' ''CA'' = ''123 main st|anytown|ca''"
  by code_simp

text \<open>
  The unit pattern cannot start at a \<open>#\<close> that does not directly follow a word character:
  there is no word boundary between such a position and \<open>#\<close>.
\<close>

lemma unit_pattern_misses_hash:
  "\<not> wordBefore pv \<Longrightarrow> ms rx_unit (pv, CHR ''#'' # cs, g) = []"
  by (simp add: rx_unit_def seqs_def wordAfter_def isWord_def isLower_def isUpper_def isDigit_def)

lemma normalizeAddress_case:
  "toLowerCase s1 = toLowerCase s2 \<Longrightarrow> toLowerCase c1 = toLowerCase c2 \<Longrightarrow>
   toLowerCase t1 = toLowerCase t2 \<Longrightarrow>
   normalizeAddress s1 c1 t1 = normalizeAddress s2 c2 t2"
  by (simp add: normalizeAddress_def normalizeStreet_def)

text \<open>
  Claim C6. The normalized key is a function of street, city and state that does not
  depend on letter case (lemma \<open>normalizeAddress_case\<close>), and the two spellings of the
  example get the same key, as does the address with the fragment \<open>Apt 5\<close>. A unit written
  with \<open>#\<close>, which the unit pattern lists, is not stripped: the pattern asks for a word
  boundary before \<open>#\<close>, and after a space there is none, so \<open>123 Main St #5\<close> keeps
  \<open>#5\<close> in its key and does not normalize equal to \<open>123 Main St\<close>.
\<close>

theorem normalize_keeps_hash_unit:
  "normalizeAddress ''123 North Main Street'' ''Anytown'' ''CA''
     = normalizeAddress ''123 Main St'' ''Anytown'' ''CA''
   \<and> normalizeAddress ''123 Main St Apt 5'' ''Anytown'' ''CA''
     = normalizeAddress ''123 Main St'' ''Anytown'' ''CA''
   \<and> normalizeAddress ''123 Main St'' ''Anytown'' ''CA'' = ''123 main st|anytown|ca''
   \<and> normalizeAddress ''123 Main St #5'' ''Anytown'' ''CA'' = ''123 main st #5|anytown|ca''"
  by (simp add: norm_a norm_b norm_hash norm_apt)


end
